theory Spec2Isabelle
  imports Main "HOL-Library.AList" "HOL-Library.Sublist"
begin

section \<open>Tasks of servicecatalog_puppet/workflow/launch.py\<close>

text \<open>
  Every task's \<open>run\<close> is modelled as a function from the task's parameters and the
  answers of its collaborators (cloud clients, upstream task outputs) to a pair: how the
  run ends (\<open>Inl\<close> an exception, \<open>Inr\<close> a normal return) and the list of calls it
  issued, in the order of issue. Writing the task's output is one of those calls.
\<close>

subsection \<open>Exceptions\<close>

datatype error =
    CouldNotFindLaunchPath
      \<comment> \<open>\<open>Exception("Could not find a launch path")\<close>\<close>
  | TypeError
      \<comment> \<open>\<open>len(None)\<close>\<close>
  | ClientError string
      \<comment> \<open>\<open>exceptions.ClientError\<close>, with \<open>str(ex)\<close>\<close>
  | ParameterNotFound
      \<comment> \<open>\<open>ssm.exceptions.ParameterNotFound\<close>\<close>
  | StackStatusError string
      \<comment> \<open>\<open>Exception(f"[{uid}] current cfn stack_status is {stack_status}")\<close>\<close>
  | CouldNotFindMatch string
      \<comment> \<open>\<open>Exception(f"[{uid}] Could not find match for {stack_output}")\<close>\<close>
  | ConfigurationError string
      \<comment> \<open>\<open>Exception("Could can only depend on ...")\<close>, with its message\<close>
  | UnknownStatus string
      \<comment> \<open>\<open>Exception(f"Unknown status: {status}")\<close>\<close>
  | UnresolvedLaunch string
      \<comment> \<open>the manifest has no launch of that name\<close>
  | OtherError string
      \<comment> \<open>any other exception of a collaborator, with its message\<close>

subsection \<open>Runs\<close>

text \<open>
  A run is how it ends and the calls it issued. \<open>and_then\<close> is sequencing: an exception
  ends the run at the call that raised it, and the calls issued so far stay issued.
\<close>

type_synonym ('c, 'a) run = "(error + 'a) \<times> 'c list"

definition ret :: "'a \<Rightarrow> ('c, 'a) run" where
  "ret x = (Inr x, [])"

definition raise_error :: "error \<Rightarrow> ('c, 'a) run" where
  "raise_error e = (Inl e, [])"

definition call :: "'c \<Rightarrow> error + 'a \<Rightarrow> ('c, 'a) run" where
  "call c answer = (answer, [c])"

definition and_then :: "('c, 'a) run \<Rightarrow> ('a \<Rightarrow> ('c, 'b) run) \<Rightarrow> ('c, 'b) run" where
  "and_then m f =
     (case m of
        (Inl e, cs) \<Rightarrow> (Inl e, cs)
      | (Inr x, cs) \<Rightarrow> (case f x of (r, cs') \<Rightarrow> (r, cs @ cs')))"

subsection \<open>Python strings and dicts\<close>

text \<open>\<open>pat in s\<close> on strings.\<close>

fun contains :: "string \<Rightarrow> string \<Rightarrow> bool" where
  "contains pat [] = (pat = [])"
| "contains pat (c # cs) = (prefix pat (c # cs) \<or> contains pat cs)"

text \<open>\<open>s.replace(old, new)\<close>: every occurrence, left to right, without overlap.\<close>

function replace :: "string \<Rightarrow> string \<Rightarrow> string \<Rightarrow> string" where
  "replace old new s =
     (if old = [] then new @ concat (map (\<lambda>c. c # new) s)
      else if s = [] then []
      else if prefix old s then new @ replace old new (drop (length old) s)
      else hd s # replace old new (tl s))"
  by pat_completeness auto
termination
  by (relation "measure (\<lambda>(old, new, s). length s)") auto

declare replace.simps [simp del]

text \<open>
  A dict is an association list in insertion order; \<open>d[k] = v\<close> is \<open>AList.update k v d\<close>.
  \<open>d1 == d2\<close> compares the values under every key of either dict.
\<close>

type_synonym params = "(string \<times> string option) list"

definition dict_eq :: "('k \<times> 'v) list \<Rightarrow> ('k \<times> 'v) list \<Rightarrow> bool" where
  "dict_eq d1 d2 = list_all (\<lambda>k. map_of d1 k = map_of d2 k) (map fst d1 @ map fst d2)"

text \<open>Truth value of an id that is a string, or \<open>False\<close>/\<open>None\<close> (here \<open>None\<close>).\<close>

definition truthy :: "string option \<Rightarrow> bool" where
  "truthy x = (case x of None \<Rightarrow> False | Some s \<Rightarrow> s \<noteq> [])"

text \<open>An id inside an f-string.\<close>

definition py_str :: "string option \<Rightarrow> string" where
  "py_str x = (case x of None \<Rightarrow> ''None'' | Some s \<Rightarrow> s)"

subsection \<open>Constants\<close>

text \<open>
  Modelled from the spec: \<open>servicecatalog_puppet/constants.py\<close> is not under src/. The
  spec gives the execution modes \<open>hub\<close> and \<open>spoke\<close>, the statuses \<open>provisioned\<close> and
  \<open>terminated\<close>, and the dependency types \<open>launch\<close>, \<open>spoke-local-portfolio\<close>,
  \<open>assertion\<close>, \<open>code-build-run\<close> and \<open>lambda-invocation\<close>; \<open>LaunchSectionTask.run\<close>
  reads the section \<open>constants.LAUNCHES\<close> as \<open>"launches"\<close>.
\<close>

definition EXECUTION_MODE_HUB :: string where "EXECUTION_MODE_HUB = ''hub''"
definition EXECUTION_MODE_SPOKE :: string where "EXECUTION_MODE_SPOKE = ''spoke''"
definition PROVISIONED :: string where "PROVISIONED = ''provisioned''"
definition TERMINATED :: string where "TERMINATED = ''terminated''"
definition LAUNCH :: string where "LAUNCH = ''launch''"
definition LAUNCHES :: string where "LAUNCHES = ''launches''"
definition SPOKE_LOCAL_PORTFOLIO :: string where "SPOKE_LOCAL_PORTFOLIO = ''spoke-local-portfolio''"
definition ASSERTION :: string where "ASSERTION = ''assertion''"
definition CODE_BUILD_RUN :: string where "CODE_BUILD_RUN = ''code-build-run''"
definition LAMBDA_INVOCATION :: string where "LAMBDA_INVOCATION = ''lambda-invocation''"

text \<open>\<open>constants.CHANGE\<close> and \<open>constants.NO_CHANGE\<close>, the two effects of a diff result.\<close>

datatype effect = CHANGE | NO_CHANGE

subsection \<open>ListLaunchPathsTask\<close>

record launch_path_summary =
  lps_Id :: string
  lps_Name :: string

text \<open>
  The response of \<open>service_catalog.list_launch_paths\<close>: \<open>response.get("LaunchPathSummaries")\<close>
  is \<open>None\<close> when the key is absent.
\<close>

record list_launch_paths_response =
  LaunchPathSummaries :: "launch_path_summary list option"

datatype llp_call =
    ListLaunchPaths string
      \<comment> \<open>\<open>service_catalog.list_launch_paths(ProductId=...)\<close>\<close>
  | WriteLaunchPath launch_path_summary
      \<comment> \<open>\<open>self.write_output(summary)\<close>\<close>

record list_launch_paths_task =
  llp_portfolio :: string
  llp_product_id :: string

text \<open>The \<open>for\<close> loop of the \<open>else\<close> branch: one write per summary named as the portfolio.\<close>

fun write_matching_paths :: "string \<Rightarrow> launch_path_summary list \<Rightarrow> (llp_call, unit) run" where
  "write_matching_paths portfolio [] = ret ()"
| "write_matching_paths portfolio (s # ss) =
     (if lps_Name s = portfolio
      then and_then (call (WriteLaunchPath s) (Inr ())) (\<lambda>_. write_matching_paths portfolio ss)
      else write_matching_paths portfolio ss)"

text \<open>
  \<open>ListLaunchPathsTask.run\<close>. The remote call answers with an exception or a response.
  \<open>len(response.get("LaunchPathSummaries"))\<close> raises on \<open>None\<close>; a list of length one is
  written whatever its name; otherwise the loop runs. The \<open>raise\<close> stands after the
  \<open>with\<close> block, outside every branch.
\<close>

definition list_launch_paths_run ::
  "list_launch_paths_task \<Rightarrow> (error + list_launch_paths_response) \<Rightarrow> (llp_call, unit) run"
where
  "list_launch_paths_run t answer =
     and_then
       (and_then (call (ListLaunchPaths (llp_product_id t)) answer)
          (\<lambda>response.
             case LaunchPathSummaries response of
               None \<Rightarrow> raise_error TypeError
             | Some summaries \<Rightarrow>
                 if length summaries = 1
                 then call (WriteLaunchPath (summaries ! 0)) (Inr ())
                 else write_matching_paths (llp_portfolio t) summaries))
       (\<lambda>_. raise_error CouldNotFindLaunchPath)"

subsection \<open>DoDescribeProvisioningParameters\<close>

record artifact_parameter =
  ParameterKey :: string
  DefaultValue :: "string option"

text \<open>
  The response of \<open>describe_provisioning_parameters\<close>;
  \<open>.get("ProvisioningArtifactParameters", [])\<close> is \<open>[]\<close> when the key is absent.
\<close>

record describe_provisioning_parameters_response =
  ProvisioningArtifactParameters :: "artifact_parameter list option"

datatype dpp_call =
    DescribeProvisioningParameters string string string
      \<comment> \<open>\<open>ProductId\<close>, \<open>ProvisioningArtifactId\<close>, \<open>PathName\<close>\<close>
  | InfoSwallowing
      \<comment> \<open>\<open>self.info("Swallowing S3 error: Access Denied")\<close>\<close>
  | Sleep nat
      \<comment> \<open>\<open>time.sleep(3)\<close>\<close>
  | WriteParameters "artifact_parameter option list"
      \<comment> \<open>\<open>self.write_output(...)\<close>; an element \<open>None\<close> is Python's \<open>None\<close>\<close>

record describe_task =
  dpp_product_id :: string
  dpp_version_id :: string
  dpp_portfolio :: string

text \<open>
  The \<open>while retries > 0\<close> loop. \<open>answers i\<close> is the service's answer to the call number
  \<open>i\<close> of this run. The loop's result is the value of \<open>provisioning_artifact_parameters\<close>
  when the loop is left: still \<open>None\<close> when \<open>retries\<close> reached 0 through the \<open>except\<close>
  branch. An attempt whose exception is caught is recorded as a call all the same.
\<close>

fun describe_loop ::
  "describe_task \<Rightarrow> (nat \<Rightarrow> error + describe_provisioning_parameters_response) \<Rightarrow> nat \<Rightarrow> nat
     \<Rightarrow> (dpp_call, artifact_parameter list option) run"
where
  "describe_loop t answers i 0 = ret None"
| "describe_loop t answers i (Suc retries) =
     (case answers i of
        Inr response \<Rightarrow>
          and_then
            (call (DescribeProvisioningParameters (dpp_product_id t) (dpp_version_id t) (dpp_portfolio t))
               (Inr response))
            (\<lambda>r. ret (Some (case ProvisioningArtifactParameters r of None \<Rightarrow> [] | Some ps \<Rightarrow> ps)))
      | Inl (ClientError msg) \<Rightarrow>
          if contains ''S3 error: Access Denied'' msg
          then
            and_then
              (call (DescribeProvisioningParameters (dpp_product_id t) (dpp_version_id t) (dpp_portfolio t))
                 (Inr ()))
              (\<lambda>_. and_then (call InfoSwallowing (Inr ()))
              (\<lambda>_. and_then (call (Sleep 3) (Inr ()))
              (\<lambda>_. describe_loop t answers (Suc i) retries)))
          else
            call (DescribeProvisioningParameters (dpp_product_id t) (dpp_version_id t) (dpp_portfolio t))
              (Inl (ClientError msg))
      | Inl e \<Rightarrow>
          call (DescribeProvisioningParameters (dpp_product_id t) (dpp_version_id t) (dpp_portfolio t))
            (Inl e))"

text \<open>
  \<open>DoDescribeProvisioningParameters.run\<close>: \<open>retries = 3\<close>, the loop, then the write of the
  list, or of \<open>[provisioning_artifact_parameters]\<close> when it is not a list.
\<close>

definition describe_provisioning_parameters_run ::
  "describe_task \<Rightarrow> (nat \<Rightarrow> error + describe_provisioning_parameters_response)
     \<Rightarrow> (dpp_call, unit) run"
where
  "describe_provisioning_parameters_run t answers =
     and_then (describe_loop t answers 0 3)
       (\<lambda>provisioning_artifact_parameters.
          call (WriteParameters
                  (case provisioning_artifact_parameters of
                     Some ps \<Rightarrow> map Some ps
                   | None \<Rightarrow> [None]))
            (Inr ()))"

subsection \<open>ProvisionProductTask\<close>

record ssm_param_output =
  stack_output :: string
  param_name :: string
  param_type :: "string option"

record cfn_output =
  OutputKey :: string
  OutputValue :: string

text \<open>A stack as \<open>aws.get_stack_output_for\<close> returns it; \<open>Outputs\<close> may be absent.\<close>

record stack =
  StackStatus :: string
  Outputs :: "cfn_output list option"

record provision_task =
  launch_name :: string
  puppet_account_id :: string
  region :: string
  account_id :: string
  portfolio :: string
  product :: string
  version :: string
  ssm_param_outputs :: "ssm_param_output list"
  launch_parameters :: "(string \<times> string) list"
  manifest_parameters :: "(string \<times> string) list"
  account_parameters :: "(string \<times> string) list"
  execution :: string
  cache_invalidator :: string
  should_use_product_plans :: bool
  should_use_sns :: bool

text \<open>The arguments the three provisioning helpers of \<open>aws\<close> have in common.\<close>

record provisioning_request =
  req_launch_name :: string
  req_account_id :: string
  req_region :: string
  req_product_id :: string
  req_version_id :: string
  req_puppet_account_id :: string
  req_path :: string
  req_params :: params
  req_version :: string

record task_output =
  out_puppet_account_id :: string
  out_launch_name :: string
  out_account_id :: string
  out_region :: string
  out_cache_invalidator :: string
  out_account_parameters :: "(string \<times> string) list"
  out_launch_parameters :: "(string \<times> string) list"
  out_manifest_parameters :: "(string \<times> string) list"

record provisioned_product =
  pp_Name :: string
  pp_Status :: string
  pp_Id :: string
  pp_ProvisioningArtifactId :: string

record provisioning_artifact_detail =
  pad_Name :: string
  pad_Active :: bool

text \<open>\<open>active\<close> of a diff result: the string \<open>"N/A"\<close> or a truth value.\<close>

datatype active = ActiveStr string | ActiveBool bool

record diff_result =
  current_version :: string
  new_version :: string
  diff_effect :: effect
  current_status :: string
  diff_active :: active
  diff_notes :: string

text \<open>
  The calls of the provisioning, dry-run and termination tasks. The helpers of
  \<open>servicecatalog_puppet/aws.py\<close> are not under src/: a call of one of them is one entry,
  with the arguments the task passes, and its answer is a parameter of the run.
\<close>

datatype call =
    TerminateIfStatusIsNotAvailable string string string string
      \<comment> \<open>\<open>aws.terminate_if_status_is_not_available\<close>: launch name, product id, account, region\<close>
  | GetParametersForStack string
      \<comment> \<open>\<open>aws.get_parameters_for_stack\<close>, by stack name\<close>
  | GetStackOutputFor string
      \<comment> \<open>\<open>aws.get_stack_output_for\<close>, by stack name\<close>
  | WarnManualResolution string string
      \<comment> \<open>\<open>self.warning(...)\<close>: stack name and stack status\<close>
  | GetPathForProduct string string
      \<comment> \<open>\<open>aws.get_path_for_product\<close>: product id, portfolio\<close>
  | ProvisionProductWithPlan provisioning_request bool
      \<comment> \<open>\<open>aws.provision_product_with_plan\<close>; \<open>req_path\<close> is the path id; \<open>should_use_sns\<close>\<close>
  | UpdateProvisionedProduct provisioning_request string
      \<comment> \<open>\<open>aws.update_provisioned_product\<close>; \<open>req_path\<close> is the path name; \<open>execution\<close>\<close>
  | ProvisionProduct provisioning_request bool string
      \<comment> \<open>\<open>aws.provision_product\<close>; \<open>req_path\<close> is the path name; \<open>should_use_sns\<close>, \<open>execution\<close>\<close>
  | PutParameterAndWait string string string bool
      \<comment> \<open>\<open>ssm.put_parameter_and_wait\<close>: \<open>Name\<close>, \<open>Value\<close>, \<open>Type\<close>, \<open>Overwrite\<close>\<close>
  | WriteOutput task_output
      \<comment> \<open>\<open>self.write_output(task_output)\<close>\<close>
  | ScanProvisionedProductsSinglePage
      \<comment> \<open>\<open>service_catalog.scan_provisioned_products_single_page\<close>\<close>
  | DescribeProvisioningArtifact string string
      \<comment> \<open>\<open>service_catalog.describe_provisioning_artifact\<close>: artifact id, product id\<close>
  | WriteResult diff_result
      \<comment> \<open>\<open>self.write_result(...)\<close>\<close>
  | EnsureIsTerminated string string
      \<comment> \<open>\<open>aws.ensure_is_terminated\<close>: launch name, product id\<close>
  | DeleteParameter string
      \<comment> \<open>\<open>ssm.delete_parameter(Name=...)\<close>\<close>
  | InfoParamNotFound string
      \<comment> \<open>\<open>self.info(f"... SSM Param: {param_name} not found")\<close>\<close>
  | WriteTerminated "string option"
      \<comment> \<open>the write of \<open>log_output\<close>, with its \<open>provisioned_product_id\<close>\<close>

text \<open>
  What the collaborators answer in one run: the upstream outputs the task reads, and the
  answer of each helper and client call (\<open>Inl\<close> when it raises). An id that a helper
  gives as \<open>False\<close> or \<open>None\<close> is \<open>None\<close>. \<open>get_stack_output_for\<close> is asked before the
  provisioning call and \<open>get_stack_output_for_ssm\<close> after it.
\<close>

record answers =
  details_product_id :: string
  details_version_id :: string
  parameter_values :: "string \<rightharpoonup> string"
  provisioning_artifact_parameters :: "artifact_parameter list"
  terminate_if_status_is_not_available ::
    "error + (string option \<times> string option \<times> string option)"
  get_parameters_for_stack :: "string \<Rightarrow> error + params"
  get_stack_output_for :: "string \<Rightarrow> error + stack"
  get_path_for_product :: "error + string"
  provision_product_with_plan :: "error + string"
  update_provisioned_product :: "error + string"
  provision_product :: "error + string"
  get_stack_output_for_ssm :: "string \<Rightarrow> error + stack"
  put_parameter_and_wait :: "string \<Rightarrow> error + unit"
  scan_provisioned_products_single_page :: "error + provisioned_product list option"
  describe_provisioning_artifact :: "string \<Rightarrow> error + provisioning_artifact_detail"
  ensure_is_terminated :: "error + (string option \<times> string option)"
  delete_parameter :: "string \<Rightarrow> error + unit"

definition stack_name :: "string \<Rightarrow> string \<Rightarrow> string" where
  "stack_name account ppid = ''SC-'' @ account @ ''-'' @ ppid"

text \<open>
  The loop that builds \<open>params_to_use\<close>: for each parameter the artifact declares, the
  value of \<open>all_params\<close> under its key, or else its \<open>DefaultValue\<close> (\<open>None\<close> when it has
  none).
\<close>

definition resolve_params :: "(string \<rightharpoonup> string) \<Rightarrow> artifact_parameter list \<Rightarrow> params" where
  "resolve_params all_params ps =
     foldl (\<lambda>params_to_use p.
              AList.update (ParameterKey p)
                (case all_params (ParameterKey p) of Some v \<Rightarrow> Some v | None \<Rightarrow> DefaultValue p)
                params_to_use)
       [] ps"

definition params_to_use :: "answers \<Rightarrow> params" where
  "params_to_use a = resolve_params (parameter_values a) (provisioning_artifact_parameters a)"

text \<open>
  The value of \<open>need_to_provision\<close> before the stack is looked at: \<open>True\<close>, set to \<open>False\<close>
  when the artifact id is the wanted version, a product id is there and the stack's
  parameters equal \<open>params_to_use\<close>; then back to \<open>True\<close> when the status is TAINTED.
\<close>

definition check_need_to_provision ::
  "provision_task \<Rightarrow> answers \<Rightarrow> string option \<Rightarrow> string option \<Rightarrow> string option
     \<Rightarrow> (call, bool) run"
where
  "check_need_to_provision t a provisioned_product_id provisioning_artifact_id status =
     and_then
       (if provisioning_artifact_id = Some (details_version_id a)
        then
          (if truthy provisioned_product_id
           then
             and_then
               (call (GetParametersForStack (stack_name (account_id t) (py_str provisioned_product_id)))
                  (get_parameters_for_stack a (stack_name (account_id t) (py_str provisioned_product_id))))
               (\<lambda>provisioned_parameters.
                  if dict_eq provisioned_parameters (params_to_use a) then ret False else ret True)
           else ret True)
        else ret True)
       (\<lambda>need_to_provision. if status = Some ''TAINTED'' then ret True else ret need_to_provision)"

definition healthy_stack_statuses :: "string list" where
  "healthy_stack_statuses = [''UPDATE_COMPLETE'', ''CREATE_COMPLETE'', ''UPDATE_ROLLBACK_COMPLETE'']"

definition check_stack_status :: "provision_task \<Rightarrow> answers \<Rightarrow> string option \<Rightarrow> (call, unit) run" where
  "check_stack_status t a provisioned_product_id =
     and_then
       (call (GetStackOutputFor (stack_name (account_id t) (py_str provisioned_product_id)))
          (get_stack_output_for a (stack_name (account_id t) (py_str provisioned_product_id))))
       (\<lambda>stack.
          if StackStatus stack \<notin> set healthy_stack_statuses
          then raise_error (StackStatusError (StackStatus stack))
          else if StackStatus stack = ''UPDATE_ROLLBACK_COMPLETE''
          then call (WarnManualResolution
                       (stack_name (account_id t) (py_str provisioned_product_id)) (StackStatus stack))
                 (Inr ())
          else ret ())"

definition request :: "provision_task \<Rightarrow> answers \<Rightarrow> string \<Rightarrow> provisioning_request" where
  "request t a path =
     \<lparr>req_launch_name = launch_name t, req_account_id = account_id t, req_region = region t,
      req_product_id = details_product_id a, req_version_id = details_version_id a,
      req_puppet_account_id = puppet_account_id t, req_path = path,
      req_params = params_to_use a, req_version = version t\<rparr>"

text \<open>
  The provisioning of a product that exists: through a plan on the launch path, or by a
  direct update. The result is the new \<open>provisioned_product_id\<close>.
\<close>

definition update_existing :: "provision_task \<Rightarrow> answers \<Rightarrow> (call, string option) run" where
  "update_existing t a =
     (if should_use_product_plans t
      then
        and_then
          (call (GetPathForProduct (details_product_id a) (portfolio t)) (get_path_for_product a))
          (\<lambda>path_id.
             and_then
               (call (ProvisionProductWithPlan (request t a path_id) (should_use_sns t))
                  (provision_product_with_plan a))
               (\<lambda>new_id. ret (Some new_id)))
      else
        and_then
          (call (UpdateProvisionedProduct (request t a (portfolio t)) (execution t))
             (update_provisioned_product a))
          (\<lambda>new_id. ret (Some new_id)))"

text \<open>
  The body of \<open>if need_to_provision\<close>: the stack's status is checked when a product id is
  there; then the plan or the update for an existing product, the provision otherwise.
\<close>

definition provision_or_update ::
  "provision_task \<Rightarrow> answers \<Rightarrow> string option \<Rightarrow> (call, string option) run"
where
  "provision_or_update t a provisioned_product_id =
     and_then
       (if truthy provisioned_product_id then check_stack_status t a provisioned_product_id
        else ret ())
       (\<lambda>_.
          if truthy provisioned_product_id
          then update_existing t a
          else
            and_then
              (call (ProvisionProduct (request t a (portfolio t)) (should_use_sns t) (execution t))
                 (provision_product a))
              (\<lambda>new_id. ret (Some new_id)))"

definition ssm_parameter_name :: "provision_task \<Rightarrow> ssm_param_output \<Rightarrow> string" where
  "ssm_parameter_name t b =
     replace ''${AWS::AccountId}'' (account_id t)
       (replace ''${AWS::Region}'' (region t) (param_name b))"

text \<open>
  The inner loop over the stack's outputs, for one binding: a put for every output whose
  key is the binding's \<open>stack_output\<close>. The result is \<open>found_match\<close>.
\<close>

fun put_matching_outputs ::
  "provision_task \<Rightarrow> answers \<Rightarrow> ssm_param_output \<Rightarrow> bool \<Rightarrow> cfn_output list \<Rightarrow> (call, bool) run"
where
  "put_matching_outputs t a b found_match [] = ret found_match"
| "put_matching_outputs t a b found_match (output # outputs) =
     (if OutputKey output = stack_output b
      then
        and_then
          (call (PutParameterAndWait (ssm_parameter_name t b) (OutputValue output)
                   (case param_type b of None \<Rightarrow> ''String'' | Some ty \<Rightarrow> ty) True)
             (put_parameter_and_wait a (ssm_parameter_name t b)))
          (\<lambda>_. put_matching_outputs t a b True outputs)
      else put_matching_outputs t a b found_match outputs)"

text \<open>The outer loop over the declared bindings.\<close>

fun write_ssm_param_outputs ::
  "provision_task \<Rightarrow> answers \<Rightarrow> cfn_output list \<Rightarrow> ssm_param_output list \<Rightarrow> (call, unit) run"
where
  "write_ssm_param_outputs t a outputs [] = ret ()"
| "write_ssm_param_outputs t a outputs (b # bs) =
     and_then (put_matching_outputs t a b False outputs)
       (\<lambda>found_match.
          if \<not> found_match then raise_error (CouldNotFindMatch (stack_output b))
          else write_ssm_param_outputs t a outputs bs)"

definition outputs_of :: "stack \<Rightarrow> cfn_output list" where
  "outputs_of s = (case Outputs s of None \<Rightarrow> [] | Some os \<Rightarrow> os)"

definition task_output_of :: "provision_task \<Rightarrow> task_output" where
  "task_output_of t =
     \<lparr>out_puppet_account_id = puppet_account_id t, out_launch_name = launch_name t,
      out_account_id = account_id t, out_region = region t,
      out_cache_invalidator = cache_invalidator t,
      out_account_parameters = account_parameters t,
      out_launch_parameters = launch_parameters t,
      out_manifest_parameters = manifest_parameters t\<rparr>"

text \<open>
  The part of \<open>ProvisionProductTask.run\<close> after the provisioning: in hub execution mode
  the stack is read again and the bindings are written; the task's output is written
  last in either mode.
\<close>

definition write_outputs :: "provision_task \<Rightarrow> answers \<Rightarrow> string option \<Rightarrow> (call, unit) run" where
  "write_outputs t a provisioned_product_id =
     and_then
       (if execution t = EXECUTION_MODE_HUB
        then
          and_then
            (call (GetStackOutputFor (stack_name (account_id t) (py_str provisioned_product_id)))
               (get_stack_output_for_ssm a (stack_name (account_id t) (py_str provisioned_product_id))))
            (\<lambda>stack_details.
               write_ssm_param_outputs t a (outputs_of stack_details) (ssm_param_outputs t))
        else ret ())
       (\<lambda>_. call (WriteOutput (task_output_of t)) (Inr ()))"

text \<open>
  The part of \<open>ProvisionProductTask.run\<close> up to the provisioning: the pre-check, the
  comparison, and the provisioning when it is needed. The result is
  \<open>provisioned_product_id\<close> as the rest of the run reads it.
\<close>

definition provisioning :: "provision_task \<Rightarrow> answers \<Rightarrow> (call, string option) run" where
  "provisioning t a =
     and_then
       (call (TerminateIfStatusIsNotAvailable (launch_name t) (details_product_id a)
                (account_id t) (region t))
          (terminate_if_status_is_not_available a))
       (\<lambda>(provisioned_product_id, provisioning_artifact_id, provisioned_product_status).
          and_then
            (check_need_to_provision t a provisioned_product_id provisioning_artifact_id
               provisioned_product_status)
            (\<lambda>need_to_provision.
               if need_to_provision then provision_or_update t a provisioned_product_id
               else ret provisioned_product_id))"

text \<open>\<open>ProvisionProductTask.run\<close>.\<close>

definition provision_product_run :: "provision_task \<Rightarrow> answers \<Rightarrow> (call, unit) run" where
  "provision_product_run t a =
     and_then (provisioning t a)
       (\<lambda>provisioned_product_id. write_outputs t a provisioned_product_id)"

subsection \<open>ProvisionProductDryRunTask\<close>



subsection \<open>DoTerminateProductTask\<close>

text \<open>
  The loop over the declared bindings: \<open>ssm.delete_parameter(Name=param_name)\<close> with the
  binding's \<open>param_name\<close> as it is declared; \<open>ParameterNotFound\<close> is caught and logged,
  any other exception leaves the run.
\<close>

fun delete_ssm_params :: "answers \<Rightarrow> ssm_param_output list \<Rightarrow> (call, unit) run" where
  "delete_ssm_params a [] = ret ()"
| "delete_ssm_params a (b # bs) =
     (case delete_parameter a (param_name b) of
        Inr u \<Rightarrow>
          and_then (call (DeleteParameter (param_name b)) (Inr ()))
            (\<lambda>_. delete_ssm_params a bs)
      | Inl ParameterNotFound \<Rightarrow>
          and_then (call (DeleteParameter (param_name b)) (Inr ()))
            (\<lambda>_. and_then (call (InfoParamNotFound (param_name b)) (Inr ()))
            (\<lambda>_. delete_ssm_params a bs))
      | Inl e \<Rightarrow> call (DeleteParameter (param_name b)) (Inl e))"

text \<open>\<open>DoTerminateProductTask.run\<close>.\<close>

definition do_terminate_product_run :: "provision_task \<Rightarrow> answers \<Rightarrow> (call, unit) run" where
  "do_terminate_product_run t a =
     and_then
       (call (EnsureIsTerminated (launch_name t) (details_product_id a)) (ensure_is_terminated a))
       (\<lambda>(provisioned_product_id, provisioning_artifact_id).
          and_then (delete_ssm_params a (ssm_param_outputs t))
            (\<lambda>_. call (WriteTerminated provisioned_product_id) (Inr ())))"

subsection \<open>RunDeployInSpokeTask and DoExecuteCodeBuildRunTask\<close>

record environment_variable =
  ev_name :: string
  ev_value :: string
  ev_type :: string

text \<open>The build of a \<open>start_build\<close> response.\<close>

record build =
  build_id :: string
  buildStatus :: string

record project =
  proj_name :: string
  proj_environmentVariables :: "environment_variable list"

datatype codebuild_call =
    S3PutObject string string string
      \<comment> \<open>\<open>s3.put_object\<close>: \<open>Body\<close>, \<open>Bucket\<close>, \<open>Key\<close>\<close>
  | GeneratePresignedUrl string string string nat
      \<comment> \<open>\<open>s3.generate_presigned_url\<close>: method, \<open>Bucket\<close>, \<open>Key\<close>, \<open>ExpiresIn\<close>\<close>
  | SsmGetParameter string
      \<comment> \<open>\<open>ssm.get_parameter(Name=...)\<close>\<close>
  | BatchGetProjects "string list"
      \<comment> \<open>\<open>codebuild.batch_get_projects(names=...)\<close>\<close>
  | StartBuild string "environment_variable list"
      \<comment> \<open>\<open>codebuild.start_build\<close>: project name and \<open>environmentVariablesOverride\<close>\<close>
  | StartBuildAndWaitForCompletion string "environment_variable list"
      \<comment> \<open>\<open>codebuild.start_build_and_wait_for_completion\<close>, with the same arguments\<close>
  | WriteDeployOutput string build
      \<comment> \<open>\<open>self.write_output(dict(account_id=..., **response))\<close>\<close>
  | WriteCodeBuildRunOutput string string string string
      \<comment> \<open>\<open>self.write_output(self.params_for_results_display())\<close>\<close>

record deploy_task =
  deploy_puppet_account_id :: string
  deploy_account_id :: string
  deploy_should_use_sns :: bool

text \<open>
  What \<open>RunDeployInSpokeTask.run\<close> reads: the configuration of the puppet account, the
  environment variable \<open>CODEBUILD_BUILD_NUMBER\<close>, the upstream manifest, the value of
  \<open>constants.EXECUTION_SPOKE_CODEBUILD_PROJECT_NAME\<close> (\<open>constants.py\<close> is not under src/),
  and the answers of the clients.
\<close>

record deploy_answers =
  home_region :: string
  regions :: "string list"
  should_use_eventbridge :: bool
  should_forward_failures_to_opscenter :: bool
  CODEBUILD_BUILD_NUMBER :: "string option"
  new_manifest :: string
  EXECUTION_SPOKE_CODEBUILD_PROJECT_NAME :: string
  put_object :: "error + unit"
  generate_presigned_url :: "error + string"
  get_parameter :: "error + string"
  start_build :: "error + build"

text \<open>\<open>str(b)\<close> of a truth value, and \<open>sep.join(xs)\<close>.\<close>

definition str_of_bool :: "bool \<Rightarrow> string" where
  "str_of_bool b = (if b then ''True'' else ''False'')"

fun join :: "string \<Rightarrow> string list \<Rightarrow> string" where
  "join sep [] = []"
| "join sep [x] = x"
| "join sep (x # y # ys) = x @ sep @ join sep (y # ys)"

definition plaintext :: "string \<Rightarrow> string \<Rightarrow> environment_variable" where
  "plaintext n v = \<lparr>ev_name = n, ev_value = v, ev_type = ''PLAINTEXT''\<rparr>"

definition deploy_environment ::
  "deploy_task \<Rightarrow> deploy_answers \<Rightarrow> string \<Rightarrow> string \<Rightarrow> environment_variable list"
where
  "deploy_environment t a puppet_version signed_url =
     [plaintext ''VERSION'' puppet_version,
      plaintext ''MANIFEST_URL'' signed_url,
      plaintext ''PUPPET_ACCOUNT_ID'' (deploy_puppet_account_id t),
      plaintext ''HOME_REGION'' (home_region a),
      plaintext ''REGIONS'' (join '','' (regions a)),
      plaintext ''SHOULD_COLLECT_CLOUDFORMATION_EVENTS'' (str_of_bool (deploy_should_use_sns t)),
      plaintext ''SHOULD_FORWARD_EVENTS_TO_EVENTBRIDGE'' (str_of_bool (should_use_eventbridge a)),
      plaintext ''SHOULD_FORWARD_FAILURES_TO_OPSCENTER''
        (str_of_bool (should_forward_failures_to_opscenter a))]"

text \<open>
  \<open>RunDeployInSpokeTask.run\<close>. The build is started with \<open>codebuild.start_build\<close>, whose
  answer is the build as it is when the call returns; the output is written next.
\<close>

definition run_deploy_in_spoke_run :: "deploy_task \<Rightarrow> deploy_answers \<Rightarrow> (codebuild_call, unit) run" where
  "run_deploy_in_spoke_run t a =
     (let bucket = ''sc-puppet-spoke-deploy-'' @ deploy_puppet_account_id t;
          key = (case CODEBUILD_BUILD_NUMBER a of None \<Rightarrow> ''0'' | Some n \<Rightarrow> n) @ ''.yaml''
      in
        and_then (call (S3PutObject (new_manifest a) bucket key) (put_object a))
          (\<lambda>_. and_then
                  (call (GeneratePresignedUrl ''get_object'' bucket key (60 * 60 * 24))
                     (generate_presigned_url a))
          (\<lambda>signed_url. and_then
                  (call (SsmGetParameter ''service-catalog-puppet-version'') (get_parameter a))
          (\<lambda>puppet_version. and_then
                  (call (StartBuild (EXECUTION_SPOKE_CODEBUILD_PROJECT_NAME a)
                           (deploy_environment t a puppet_version signed_url))
                     (start_build a))
          (\<lambda>response. call (WriteDeployOutput (deploy_account_id t) response) (Inr ()))))))"

record code_build_run_task =
  cbr_code_build_run_name :: string
  cbr_puppet_account_id :: string
  cbr_region :: string
  cbr_account_id :: string
  cbr_project_name :: string
  cbr_cache_invalidator :: string

record code_build_run_answers =
  provided_parameters :: "string \<rightharpoonup> string"
  batch_get_projects :: "error + project list option"
  start_build_and_wait_for_completion :: "error + build"

text \<open>The parameters taken from the project's PLAINTEXT variables that have a value provided.\<close>

definition project_parameters ::
  "code_build_run_task \<Rightarrow> (string \<rightharpoonup> string) \<Rightarrow> project list \<Rightarrow> environment_variable list"
where
  "project_parameters t provided projects =
     concat (map (\<lambda>p.
        if proj_name p = cbr_project_name t
        then concat (map (\<lambda>v.
               if ev_type v = ''PLAINTEXT'' \<and> truthy (provided (ev_name v))
               then [plaintext (ev_name v) (py_str (provided (ev_name v)))]
               else [])
             (proj_environmentVariables p))
        else []) projects)"

text \<open>
  \<open>DoExecuteCodeBuildRunTask.run\<close> (codebuild_runs.py): the build is started with
  \<open>codebuild.start_build_and_wait_for_completion\<close>.
\<close>

definition do_execute_code_build_run ::
  "code_build_run_task \<Rightarrow> code_build_run_answers \<Rightarrow> (codebuild_call, unit) run"
where
  "do_execute_code_build_run t a =
     and_then (call (BatchGetProjects [cbr_project_name t]) (batch_get_projects a))
       (\<lambda>projects. and_then
          (call (StartBuildAndWaitForCompletion (cbr_project_name t)
                   (project_parameters t (provided_parameters a)
                      (case projects of None \<Rightarrow> [] | Some ps \<Rightarrow> ps)
                    @ [plaintext ''TARGET_ACCOUNT_ID'' (cbr_account_id t),
                       plaintext ''TARGET_REGION'' (cbr_region t)]))
             (start_build_and_wait_for_completion a))
       (\<lambda>_. call (WriteCodeBuildRunOutput (cbr_puppet_account_id t) (cbr_code_build_run_name t)
                     (cbr_region t) (cbr_account_id t))
               (Inr ())))"

subsection \<open>Graph construction: the requires() of the launch tasks\<close>

record depends_on =
  dep_type :: string
  dep_affinity :: string
  dep_name :: string

text \<open>A launch of the manifest, with the keys \<open>requires\<close> reads through \<open>.get\<close>.\<close>

record launch =
  l_execution :: "string option"
  l_depends_on :: "depends_on list option"
  l_status :: "string option"

datatype klass =
    ProvisionProductDryRunTask | TerminateProductDryRunTask
  | ProvisionProductTask | TerminateProductTask

datatype task =
    LaunchForSpokeExecutionTask string
  | LaunchTask string
  | SpokeLocalPortfolioTask string
  | AssertionTask string
  | CodeBuildRunTask string
  | LambdaInvocationTask string
  | LaunchForRegionTask string string
      \<comment> \<open>launch name and region\<close>

text \<open>
  The loop of \<open>LaunchForSpokeExecutionTask.requires\<close> over the launch's \<open>depends_on\<close>.
  \<open>m\<close> is \<open>manifest.get_launch\<close> (the manifest accessor is not under src/; a name it
  does not know ends the construction with an exception). An edge whose type is none of
  the five is passed over: the \<open>if\<close>/\<open>elif\<close> chain has no \<open>else\<close>.
\<close>

fun spoke_dependencies ::
  "(string \<Rightarrow> launch option) \<Rightarrow> task list \<Rightarrow> depends_on list \<Rightarrow> error + task list"
where
  "spoke_dependencies m these_dependencies [] = Inr these_dependencies"
| "spoke_dependencies m these_dependencies (d # ds) =
     (if dep_type d = LAUNCH then
        (if dep_affinity d = LAUNCH then
           (case m (dep_name d) of
              None \<Rightarrow> Inl (UnresolvedLaunch (dep_name d))
            | Some dep \<Rightarrow>
                if l_execution dep = Some EXECUTION_MODE_SPOKE
                then spoke_dependencies m
                       (these_dependencies @ [LaunchForSpokeExecutionTask (dep_name d)]) ds
                else spoke_dependencies m (these_dependencies @ [LaunchTask (dep_name d)]) ds)
         else Inl (ConfigurationError
           ''Could can only depend on a launch using affinity launch when using spoke execution mode''))
      else if dep_type d = SPOKE_LOCAL_PORTFOLIO then
        (if dep_affinity d = SPOKE_LOCAL_PORTFOLIO
         then spoke_dependencies m (these_dependencies @ [SpokeLocalPortfolioTask (dep_name d)]) ds
         else Inl (ConfigurationError
           ''Could can only depend on a spoke_local_portfolio using affinity spoke_local_portfolios when using spoke execution mode''))
      else if dep_type d = ASSERTION then
        (if dep_affinity d = ASSERTION
         then spoke_dependencies m (these_dependencies @ [AssertionTask (dep_name d)]) ds
         else Inl (ConfigurationError
           ''Could can only depend on an assertion using affinity assertion when using spoke execution mode''))
      else if dep_type d = CODE_BUILD_RUN then
        (if dep_affinity d = CODE_BUILD_RUN
         then spoke_dependencies m (these_dependencies @ [CodeBuildRunTask (dep_name d)]) ds
         else Inl (ConfigurationError
           ''Could can only depend on a code_build_run using affinity code_build_run when using spoke execution mode''))
      else if dep_type d = LAMBDA_INVOCATION then
        (if dep_affinity d = LAMBDA_INVOCATION
         then spoke_dependencies m (these_dependencies @ [LambdaInvocationTask (dep_name d)]) ds
         else Inl (ConfigurationError
           ''Could can only depend on a lambda_invocation using affinity lambda_invocation when using spoke execution mode''))
      else spoke_dependencies m these_dependencies ds)"

text \<open>\<open>LaunchForSpokeExecutionTask.requires\<close>, for the launch named \<open>name\<close>.\<close>

definition launch_for_spoke_execution_requires ::
  "(string \<Rightarrow> launch option) \<Rightarrow> string \<Rightarrow> error + task list"
where
  "launch_for_spoke_execution_requires m name =
     (case m name of
        None \<Rightarrow> Inl (UnresolvedLaunch name)
      | Some l \<Rightarrow>
          spoke_dependencies m [] (case l_depends_on l of None \<Rightarrow> [] | Some ds \<Rightarrow> ds))"

text \<open>\<open>LaunchForTask.get_klass_for_provisioning\<close>, from \<open>is_dry_run\<close> and the launch's status.\<close>

definition get_klass_for_provisioning :: "bool \<Rightarrow> string \<Rightarrow> error + klass" where
  "get_klass_for_provisioning is_dry_run status =
     (if is_dry_run then
        (if status = PROVISIONED then Inr ProvisionProductDryRunTask
         else if status = TERMINATED then Inr TerminateProductDryRunTask
         else Inl (UnknownStatus status))
      else
        (if status = PROVISIONED then Inr ProvisionProductTask
         else if status = TERMINATED then Inr TerminateProductTask
         else Inl (UnknownStatus status)))"

text \<open>
  \<open>LaunchForRegionTask.requires\<close>, for the launch \<open>name\<close> and the region \<open>r\<close>.
  \<open>region_tasks\<close> is what \<open>manifest.get_tasks_for_launch_and_region\<close> returns (the
  parameters of one item task each). The result is the dict of \<open>dependencies\<close> and
  \<open>these_dependencies\<close>. No branch of the loop over \<open>depends_on\<close> raises.
\<close>

definition launch_for_region_requires ::
  "bool \<Rightarrow> (string \<Rightarrow> launch option) \<Rightarrow> 'p list \<Rightarrow> string \<Rightarrow> string
     \<Rightarrow> error + ((klass \<times> 'p) list \<times> task list)"
where
  "launch_for_region_requires is_dry_run m region_tasks name r =
     (case m name of
        None \<Rightarrow> Inl (UnresolvedLaunch name)
      | Some l \<Rightarrow>
          (case get_klass_for_provisioning is_dry_run
                  (case l_status l of None \<Rightarrow> PROVISIONED | Some s \<Rightarrow> s) of
             Inl e \<Rightarrow> Inl e
           | Inr klass \<Rightarrow>
               Inr (map (Pair klass) region_tasks,
                    map (\<lambda>d. LaunchForRegionTask (dep_name d) r)
                      (filter (\<lambda>d. dep_type d = LAUNCHES \<and> dep_affinity d = ''region'')
                         (case l_depends_on l of None \<Rightarrow> [] | Some ds \<Rightarrow> ds)))))"

subsection \<open>Kinds of calls\<close>

text \<open>The remote calls of \<open>DoDescribeProvisioningParameters.run\<close>.\<close>

fun is_describe :: "dpp_call \<Rightarrow> bool" where
  "is_describe (DescribeProvisioningParameters _ _ _) = True"
| "is_describe _ = False"

text \<open>
  The calls that change the cloud: the three provisioning helpers, the put and the delete
  of a parameter. The helpers \<open>aws.terminate_if_status_is_not_available\<close> and
  \<open>aws.ensure_is_terminated\<close> terminate a product under a condition they test themselves;
  they are outside src/ and are told apart by \<open>may_terminate\<close>.
\<close>

fun mutating :: "call \<Rightarrow> bool" where
  "mutating (ProvisionProductWithPlan _ _) = True"
| "mutating (UpdateProvisionedProduct _ _) = True"
| "mutating (ProvisionProduct _ _ _) = True"
| "mutating (PutParameterAndWait _ _ _ _) = True"
| "mutating (DeleteParameter _) = True"
| "mutating _ = False"

fun may_terminate :: "call \<Rightarrow> bool" where
  "may_terminate (TerminateIfStatusIsNotAvailable _ _ _ _) = True"
| "may_terminate (EnsureIsTerminated _ _) = True"
| "may_terminate _ = False"

text \<open>The parameter map a provisioning call is given.\<close>

fun sent_params :: "call \<Rightarrow> params option" where
  "sent_params (ProvisionProductWithPlan r _) = Some (req_params r)"
| "sent_params (UpdateProvisionedProduct r _) = Some (req_params r)"
| "sent_params (ProvisionProduct r _ _) = Some (req_params r)"
| "sent_params _ = None"

fun is_put :: "call \<Rightarrow> bool" where
  "is_put (PutParameterAndWait _ _ _ _) = True"
| "is_put _ = False"

subsection \<open>The scenario of the spec\<close>

text \<open>
  The launch \<open>L1\<close> of the spec's concrete scenario, in account \<open>111111111111\<close> and
  region \<open>us-east-1\<close>, run from the hub, with one declared SSM output binding; and a state
  of the collaborators: the product is provisioned at the wanted artifact, its stack has
  \<open>Foo=old\<close>, and the wanted value is \<open>Foo=new\<close>. The parameter store holds the
  parameter \<open>/networking/us-east-1/111111111111/vpc-id\<close> and no other: deleting any other
  name raises \<open>ParameterNotFound\<close>.
\<close>

definition example_task :: provision_task where
  "example_task =
     \<lparr>launch_name = ''L1'', puppet_account_id = ''000000000000'', region = ''us-east-1'',
      account_id = ''111111111111'', portfolio = ''networking'', product = ''vpc'',
      version = ''v2'',
      ssm_param_outputs =
        [\<lparr>stack_output = ''VpcId'',
          param_name = ''/networking/${AWS::Region}/${AWS::AccountId}/vpc-id'',
          param_type = None\<rparr>],
      launch_parameters = [], manifest_parameters = [], account_parameters = [],
      execution = ''hub'', cache_invalidator = ''run-1'',
      should_use_product_plans = False, should_use_sns = False\<rparr>"

definition example_answers :: answers where
  "example_answers =
     \<lparr>details_product_id = ''prod-1'', details_version_id = ''pa-2'',
      parameter_values = [''Foo'' \<mapsto> ''new'', ''Undeclared'' \<mapsto> ''x''],
      provisioning_artifact_parameters =
        [\<lparr>ParameterKey = ''Foo'', DefaultValue = Some ''foo-default''\<rparr>,
         \<lparr>ParameterKey = ''Bar'', DefaultValue = Some ''bar-default''\<rparr>],
      terminate_if_status_is_not_available = Inr (Some ''pp-1'', Some ''pa-2'', Some ''AVAILABLE''),
      get_parameters_for_stack =
        (\<lambda>_. Inr [(''Foo'', Some ''old''), (''Bar'', Some ''bar-default'')]),
      get_stack_output_for = (\<lambda>_. Inr \<lparr>StackStatus = ''UPDATE_COMPLETE'', Outputs = None\<rparr>),
      get_path_for_product = Inr ''path-1'',
      provision_product_with_plan = Inr ''pp-1'',
      update_provisioned_product = Inr ''pp-1'',
      provision_product = Inr ''pp-2'',
      get_stack_output_for_ssm =
        (\<lambda>_. Inr \<lparr>StackStatus = ''UPDATE_COMPLETE'',
                   Outputs = Some [\<lparr>OutputKey = ''VpcId'', OutputValue = ''vpc-123''\<rparr>]\<rparr>),
      put_parameter_and_wait = (\<lambda>_. Inr ()),
      scan_provisioned_products_single_page =
        Inr (Some [\<lparr>pp_Name = ''L1'', pp_Status = ''AVAILABLE'', pp_Id = ''pp-1'',
                    pp_ProvisioningArtifactId = ''pa-2''\<rparr>]),
      describe_provisioning_artifact = (\<lambda>_. Inr \<lparr>pad_Name = ''v2'', pad_Active = True\<rparr>),
      ensure_is_terminated = Inr (Some ''pp-1'', Some ''pa-2''),
      delete_parameter =
        (\<lambda>n. if n = ''/networking/us-east-1/111111111111/vpc-id'' then Inr ()
             else Inl ParameterNotFound)\<rparr>"

text \<open>The same state with the stack's parameters already at the wanted values.\<close>

definition converged_answers :: answers where
  "converged_answers =
     example_answers
       \<lparr>get_parameters_for_stack :=
          (\<lambda>_. Inr [(''Bar'', Some ''bar-default''), (''Foo'', Some ''new'')])\<rparr>"

text \<open>The converged state with the product TAINTED, and the launch run from a spoke.\<close>

definition tainted_answers :: answers where
  "tainted_answers =
     converged_answers
       \<lparr>terminate_if_status_is_not_available :=
          Inr (Some ''pp-1'', Some ''pa-2'', Some ''TAINTED'')\<rparr>"

definition spoke_task :: provision_task where
  "spoke_task = example_task \<lparr>execution := ''spoke''\<rparr>"

text \<open>The scenario with the stack of the product in a given status.\<close>

definition stack_answers :: "string \<Rightarrow> answers" where
  "stack_answers status =
     example_answers
       \<lparr>get_stack_output_for := (\<lambda>_. Inr \<lparr>StackStatus = status, Outputs = None\<rparr>)\<rparr>"

subsection \<open>What the bindings ask for\<close>

text \<open>
  A binding is matched when a stack output has its \<open>stack_output\<close> as key. \<open>put_for\<close> is
  the put a matched binding asks for: the binding's \<open>param_name\<close> with \<open>${AWS::Region}\<close>
  replaced by the region and then \<open>${AWS::AccountId}\<close> by the account id, the value of the
  output of that key, the binding's type or \<open>String\<close>, and \<open>Overwrite=True\<close>.
\<close>

definition matched :: "cfn_output list \<Rightarrow> ssm_param_output \<Rightarrow> bool" where
  "matched outs b = (stack_output b \<in> OutputKey ` set outs)"

definition output_value :: "cfn_output list \<Rightarrow> string \<Rightarrow> string" where
  "output_value outs k =
     (case find (\<lambda>out. OutputKey out = k) outs of Some out \<Rightarrow> OutputValue out | None \<Rightarrow> [])"

definition put_for :: "provision_task \<Rightarrow> cfn_output list \<Rightarrow> ssm_param_output \<Rightarrow> call" where
  "put_for t outs b =
     PutParameterAndWait
       (replace ''${AWS::AccountId}'' (account_id t)
          (replace ''${AWS::Region}'' (region t) (param_name b)))
       (output_value outs (stack_output b))
       (case param_type b of None \<Rightarrow> ''String'' | Some ty \<Rightarrow> ty)
       True"

text \<open>The scenario with a second binding, to a key the stack does not output.\<close>

definition two_bindings_task :: provision_task where
  "two_bindings_task =
     example_task
       \<lparr>ssm_param_outputs :=
          [\<lparr>stack_output = ''VpcId'',
            param_name = ''/networking/${AWS::Region}/${AWS::AccountId}/vpc-id'',
            param_type = None\<rparr>,
           \<lparr>stack_output = ''SubnetId'', param_name = ''/networking/subnet-id'',
            param_type = Some ''StringList''\<rparr>]\<rparr>"

text \<open>The same two bindings declared the other way round.\<close>

definition unmatched_first_task :: provision_task where
  "unmatched_first_task =
     example_task
       \<lparr>ssm_param_outputs :=
          [\<lparr>stack_output = ''SubnetId'', param_name = ''/networking/subnet-id'',
            param_type = Some ''StringList''\<rparr>,
           \<lparr>stack_output = ''VpcId'',
            param_name = ''/networking/${AWS::Region}/${AWS::AccountId}/vpc-id'',
            param_type = None\<rparr>]\<rparr>"



text \<open>
  A deployment into the spoke \<open>111111111111\<close>, at a \<open>start_build\<close> that answers with the
  build just started; and the calls that wait for a build to complete.
\<close>

definition example_deploy_task :: deploy_task where
  "example_deploy_task =
     \<lparr>deploy_puppet_account_id = ''000000000000'', deploy_account_id = ''111111111111'',
      deploy_should_use_sns = True\<rparr>"

definition example_deploy_answers :: deploy_answers where
  "example_deploy_answers =
     \<lparr>home_region = ''eu-west-1'', regions = [''eu-west-1'', ''us-east-1''],
      should_use_eventbridge = False, should_forward_failures_to_opscenter = False,
      CODEBUILD_BUILD_NUMBER = Some ''42'', new_manifest = ''launches: {}'',
      EXECUTION_SPOKE_CODEBUILD_PROJECT_NAME = ''servicecatalog-puppet-deploy-in-spoke'',
      put_object = Inr (),
      generate_presigned_url = Inr ''https://s3/signed'',
      get_parameter = Inr ''0.90.0'',
      start_build = Inr \<lparr>build_id = ''build-1'', buildStatus = ''IN_PROGRESS''\<rparr>\<rparr>"

fun waits :: "codebuild_call \<Rightarrow> bool" where
  "waits (StartBuildAndWaitForCompletion _ _) = True"
| "waits _ = False"

text \<open>
  The dependency types \<open>LaunchForSpokeExecutionTask.requires\<close> knows, the exceptions that
  are configuration errors (the raise for an affinity, and a depends-on target the
  manifest does not have), and a manifest with the launch \<open>L1\<close>, run in spoke execution
  mode with given \<open>depends_on\<close>, and the hub launch \<open>L0\<close>.
\<close>

definition supported_types :: "string list" where
  "supported_types = [LAUNCH, SPOKE_LOCAL_PORTFOLIO, ASSERTION, CODE_BUILD_RUN, LAMBDA_INVOCATION]"

definition is_configuration_error :: "error \<Rightarrow> bool" where
  "is_configuration_error e =
     (case e of ConfigurationError _ \<Rightarrow> True | UnresolvedLaunch _ \<Rightarrow> True | _ \<Rightarrow> False)"

definition example_manifest :: "depends_on list \<Rightarrow> string \<Rightarrow> launch option" where
  "example_manifest ds name =
     (if name = ''L1'' then Some \<lparr>l_execution = Some ''spoke'', l_depends_on = Some ds,
                                 l_status = Some ''provisioned''\<rparr>
      else if name = ''L0'' then Some \<lparr>l_execution = Some ''hub'', l_depends_on = None,
                                      l_status = None\<rparr>
      else None)"

section \<open>Properties\<close>

subsection \<open>Runs\<close>

lemma and_then_Inr [simp]: "and_then (Inr x, cs) f = (fst (f x), cs @ snd (f x))"
  by (simp add: and_then_def split: prod.splits)

lemma and_then_Inl [simp]: "and_then (Inl e, cs) f = (Inl e, cs)"
  by (simp add: and_then_def)

lemmas run_defs = ret_def raise_error_def call_def

lemma fst_and_then:
  "fst (and_then m f) = (case fst m of Inl e \<Rightarrow> Inl e | Inr x \<Rightarrow> fst (f x))"
  by (cases m) (simp add: and_then_def split: sum.splits prod.splits)

lemma snd_and_then:
  "snd (and_then m f) = (case fst m of Inl e \<Rightarrow> snd m | Inr x \<Rightarrow> snd m @ snd (f x))"
  by (cases m) (simp add: and_then_def split: sum.splits prod.splits)

subsection \<open>ListLaunchPathsTask.run always raises\<close>

lemma write_matching_paths_returns:
  "write_matching_paths pf ss
     = (Inr (), map WriteLaunchPath (filter (\<lambda>s. lps_Name s = pf) ss))"
  by (induction ss) (simp_all add: run_defs)

lemma list_launch_paths_run_never_returns:
  "fst (list_launch_paths_run t answer) \<noteq> Inr ()"
  by (cases answer)
    (simp_all add: list_launch_paths_run_def write_matching_paths_returns run_defs
      split: option.splits)

text \<open>
  C10, as the code has it. The run never returns normally, whatever the service does.
  When the service answers with a list of launch path summaries, the run ends by raising
  "Could not find a launch path": with exactly one summary, that summary has been written
  as the output before the raise (whatever its name); with any other number, every
  summary whose name equals the portfolio has been written before the raise. When the
  call of the service raises, the run ends with that exception, and when the response
  has no \<open>LaunchPathSummaries\<close>, with the \<open>TypeError\<close> of \<open>len(None)\<close>; nothing is written
  in either case.
\<close>

theorem list_launch_paths_run_always_raises:
  "(\<forall>answer. fst (list_launch_paths_run t answer) \<noteq> Inr ())
   \<and> fst (list_launch_paths_run t (Inr \<lparr>LaunchPathSummaries = Some summaries\<rparr>))
     = Inl CouldNotFindLaunchPath
   \<and> snd (list_launch_paths_run t (Inr \<lparr>LaunchPathSummaries = Some [s]\<rparr>))
     = [ListLaunchPaths (llp_product_id t), WriteLaunchPath s]
   \<and> snd (list_launch_paths_run t (Inr \<lparr>LaunchPathSummaries = Some (s1 # s2 # ss)\<rparr>))
     = ListLaunchPaths (llp_product_id t)
         # map WriteLaunchPath (filter (\<lambda>s. lps_Name s = llp_portfolio t) (s1 # s2 # ss))
   \<and> snd (list_launch_paths_run t (Inr \<lparr>LaunchPathSummaries = Some []\<rparr>))
     = [ListLaunchPaths (llp_product_id t)]
   \<and> list_launch_paths_run t (Inl e) = (Inl e, [ListLaunchPaths (llp_product_id t)])
   \<and> list_launch_paths_run t (Inr \<lparr>LaunchPathSummaries = None\<rparr>)
     = (Inl TypeError, [ListLaunchPaths (llp_product_id t)])"
  using list_launch_paths_run_never_returns [of t]
  by (simp add: list_launch_paths_run_def write_matching_paths_returns run_defs)

text \<open>
  C10 as stated fails: "for every input" takes in a service call that raises and a
  response without \<open>LaunchPathSummaries\<close>, and there the run ends with the client's
  exception or with \<open>TypeError\<close>, not with "Could not find a launch path".
\<close>

theorem list_launch_paths_run_other_exceptions:
  "fst (list_launch_paths_run \<lparr>llp_portfolio = ''networking'', llp_product_id = ''prod-1''\<rparr>
          (Inl (ClientError ''An error occurred (AccessDeniedException)'')))
     = Inl (ClientError ''An error occurred (AccessDeniedException)'')
   \<and> Inl (ClientError ''An error occurred (AccessDeniedException)'')
       \<noteq> (Inl CouldNotFindLaunchPath :: error + unit)
   \<and> fst (list_launch_paths_run \<lparr>llp_portfolio = ''networking'', llp_product_id = ''prod-1''\<rparr>
            (Inr \<lparr>LaunchPathSummaries = None\<rparr>))
     = Inl TypeError
   \<and> Inl TypeError \<noteq> (Inl CouldNotFindLaunchPath :: error + unit)"
  by (simp add: list_launch_paths_run_def run_defs)

subsection \<open>DoDescribeProvisioningParameters.run: the retry loop\<close>

lemma contains_sublist: "contains pat s = sublist pat s"
  by (induction s) (auto simp: sublist_Cons_right)

lemma describe_loop_bounded:
  "length (filter is_describe (snd (describe_loop t answers i retries))) \<le> retries"
proof (induction retries arbitrary: i)
  case 0
  then show ?case by (simp add: run_defs)
next
  case (Suc retries)
  show ?case
  proof (cases "answers i")
    case (Inr response)
    then show ?thesis by (simp add: run_defs)
  next
    case (Inl e)
    show ?thesis
    proof (cases "\<exists>msg. e = ClientError msg \<and> contains ''S3 error: Access Denied'' msg")
      case True
      then obtain msg where e: "e = ClientError msg" and c: "contains ''S3 error: Access Denied'' msg"
        by blast
      have "length (filter is_describe (snd (describe_loop t answers (Suc i) retries))) \<le> retries"
        by (rule Suc.IH)
      then show ?thesis using Inl e c
        by (simp add: run_defs del: contains.simps)
    next
      case False
      then show ?thesis using Inl
        by (cases e) (simp_all add: run_defs del: contains.simps)
    qed
  qed
qed

lemma describe_loop_3:
  "describe_loop t answers i 3 = describe_loop t answers i (Suc (Suc (Suc 0)))"
  by (simp add: numeral_3_eq_3)

text \<open>At most three attempts, whatever the service answers.\<close>

lemma describe_run_bounded:
  "length (filter is_describe (snd (describe_provisioning_parameters_run t answers))) \<le> 3"
  using describe_loop_bounded [of t answers 0 3]
  by (simp add: describe_provisioning_parameters_run_def snd_and_then run_defs split: sum.splits)

text \<open>
  An exception that is not a \<open>ClientError\<close> with "S3 error: Access Denied" in its message
  leaves the run at the first attempt: no sleep, no second attempt, no output.
\<close>

lemma describe_run_other_error:
  assumes "answers 0 = Inl e"
    and "\<And>msg. e = ClientError msg \<Longrightarrow> \<not> contains ''S3 error: Access Denied'' msg"
  shows "describe_provisioning_parameters_run t answers
     = (Inl e, [DescribeProvisioningParameters (dpp_product_id t) (dpp_version_id t) (dpp_portfolio t)])"
  using assms
  by (cases e)
    (simp_all add: describe_provisioning_parameters_run_def describe_loop_3 run_defs
      del: contains.simps)

text \<open>
  When each of the three attempts ends in the transient error, the loop is left with
  \<open>provisioning_artifact_parameters\<close> still \<open>None\<close>, and the run writes \<open>[None]\<close> and
  returns.
\<close>

lemma describe_run_exhausted:
  assumes "\<And>i. i < 3 \<Longrightarrow>
    \<exists>msg. answers i = Inl (ClientError msg) \<and> contains ''S3 error: Access Denied'' msg"
  shows "describe_provisioning_parameters_run t answers
     = (Inr (),
        concat (replicate 3
          [DescribeProvisioningParameters (dpp_product_id t) (dpp_version_id t) (dpp_portfolio t),
           InfoSwallowing, Sleep 3])
        @ [WriteParameters [None]])"
proof -
  obtain m0 where m0: "answers 0 = Inl (ClientError m0)" "contains ''S3 error: Access Denied'' m0"
    using assms[of 0] by auto
  obtain m1 where m1: "answers (Suc 0) = Inl (ClientError m1)" "contains ''S3 error: Access Denied'' m1"
    using assms[of 1] by auto
  obtain m2 where m2: "answers (Suc (Suc 0)) = Inl (ClientError m2)"
      "contains ''S3 error: Access Denied'' m2"
    using assms[of 2] by (auto simp: numeral_2_eq_2)
  have r: "replicate 3 x = [x, x, x]" for x :: "dpp_call list"
    by (simp add: numeral_3_eq_3)
  show ?thesis using m0 m1 m2
    by (simp add: describe_provisioning_parameters_run_def describe_loop_3 r run_defs
        del: contains.simps)
qed

text \<open>
  C2. The run at a service that answers every attempt with the transient error: three
  attempts, each followed by the log line and the sleep of three seconds, and then the
  run writes the output \<open>[None]\<close> and returns normally. The transient error is not raised
  once the retries are used up.
\<close>

theorem describe_run_swallows_exhausted_retries:
  "describe_provisioning_parameters_run
     \<lparr>dpp_product_id = ''prod-1'', dpp_version_id = ''pa-1'', dpp_portfolio = ''portfolio''\<rparr>
     (\<lambda>i. Inl (ClientError ''An error occurred (ValidationException): S3 error: Access Denied''))
   = (Inr (),
      [DescribeProvisioningParameters ''prod-1'' ''pa-1'' ''portfolio'', InfoSwallowing, Sleep 3,
       DescribeProvisioningParameters ''prod-1'' ''pa-1'' ''portfolio'', InfoSwallowing, Sleep 3,
       DescribeProvisioningParameters ''prod-1'' ''pa-1'' ''portfolio'', InfoSwallowing, Sleep 3,
       WriteParameters [None]])"
  by (simp add: describe_provisioning_parameters_run_def describe_loop_3 run_defs)

subsection \<open>The resolved parameter map\<close>

lemma dict_eq_map_of: "dict_eq d1 d2 \<longleftrightarrow> map_of d1 = map_of d2"
proof
  assume h: "dict_eq d1 d2"
  show "map_of d1 = map_of d2"
  proof
    fix k
    show "map_of d1 k = map_of d2 k"
    proof (cases "k \<in> fst ` set d1 \<union> fst ` set d2")
      case True
      with h show ?thesis by (auto simp: dict_eq_def list_all_iff)
    next
      case False
      then have "map_of d1 k = None" "map_of d2 k = None"
        by (simp_all add: map_of_eq_None_iff)
      then show ?thesis by simp
    qed
  qed
next
  assume "map_of d1 = map_of d2"
  then show "dict_eq d1 d2" by (simp add: dict_eq_def list_all_iff)
qed

lemma resolve_fold_keys:
  "fst ` set (foldl (\<lambda>acc p. AList.update (ParameterKey p) (f p) acc) acc ps)
     = fst ` set acc \<union> ParameterKey ` set ps"
  by (induction ps arbitrary: acc) (auto simp: dom_update)

lemma resolve_fold_distinct:
  "distinct (map fst acc) \<Longrightarrow>
   distinct (map fst (foldl (\<lambda>acc p. AList.update (ParameterKey p) (f p) acc) acc ps))"
  by (induction ps arbitrary: acc) (simp_all add: distinct_update)

lemma find_append':
  "find P (xs @ ys) = (case find P xs of None \<Rightarrow> find P ys | Some x \<Rightarrow> Some x)"
  by (induction xs) simp_all

lemma resolve_fold_map_of:
  "map_of (foldl (\<lambda>acc p. AList.update (ParameterKey p) (f p) acc) acc ps) k
     = (case find (\<lambda>p. ParameterKey p = k) (rev ps) of
          None \<Rightarrow> map_of acc k
        | Some p \<Rightarrow> Some (f p))"
proof (induction ps arbitrary: acc)
  case Nil
  then show ?case by simp
next
  case (Cons p ps)
  show ?case
    by (simp add: Cons.IH update_conv' find_append' split: option.splits)
qed

lemma resolve_params_keys:
  "fst ` set (resolve_params all_params ps) = ParameterKey ` set ps"
  unfolding resolve_params_def by (simp add: resolve_fold_keys)

lemma resolve_params_distinct: "distinct (map fst (resolve_params all_params ps))"
  unfolding resolve_params_def by (rule resolve_fold_distinct) simp

lemma resolve_params_map_of:
  "map_of (resolve_params all_params ps) k
     = (case find (\<lambda>p. ParameterKey p = k) (rev ps) of
          None \<Rightarrow> None
        | Some p \<Rightarrow>
            Some (case all_params (ParameterKey p) of Some v \<Rightarrow> Some v | None \<Rightarrow> DefaultValue p))"
  unfolding resolve_params_def
  by (simp add: resolve_fold_map_of split: option.splits)

text \<open>The calls of the post-provision part are reads, puts and the write of the output.\<close>

lemma put_matching_outputs_sent:
  "c \<in> set (snd (put_matching_outputs t a b found outs)) \<Longrightarrow> is_put c"
proof (induction outs arbitrary: found)
  case Nil
  then show ?case by (simp add: run_defs)
next
  case (Cons x outs)
  then show ?case
    by (cases "put_parameter_and_wait a (ssm_parameter_name t b)")
       (auto simp: run_defs split: if_splits)
qed

lemma write_ssm_param_outputs_sent:
  "c \<in> set (snd (write_ssm_param_outputs t a outs bs)) \<Longrightarrow> is_put c"
proof (induction bs)
  case Nil
  then show ?case by (simp add: run_defs)
next
  case (Cons b bs)
  then show ?case
    by (auto simp: snd_and_then run_defs split: sum.splits if_splits dest: put_matching_outputs_sent)
qed

lemma write_outputs_sent:
  "c \<in> set (snd (write_outputs t a ppid)) \<Longrightarrow> sent_params c = None"
  by (cases "get_stack_output_for_ssm a (stack_name (account_id t) (py_str ppid))")
     (auto simp: write_outputs_def snd_and_then run_defs split: sum.splits if_splits
        dest!: write_ssm_param_outputs_sent elim: is_put.elims)

lemma check_need_to_provision_sent:
  "c \<in> set (snd (check_need_to_provision t a ppid paid st)) \<Longrightarrow> sent_params c = None"
  by (cases "get_parameters_for_stack a (stack_name (account_id t) (py_str ppid))")
     (auto simp: check_need_to_provision_def snd_and_then run_defs split: sum.splits if_splits)

lemma check_stack_status_sent:
  "c \<in> set (snd (check_stack_status t a ppid)) \<Longrightarrow> sent_params c = None"
  by (cases "get_stack_output_for a (stack_name (account_id t) (py_str ppid))")
     (auto simp: check_stack_status_def run_defs split: if_splits)

lemma provision_or_update_sent:
  "c \<in> set (snd (provision_or_update t a ppid)) \<Longrightarrow> sent_params c = Some ps
     \<Longrightarrow> ps = params_to_use a"
  by (cases "get_path_for_product a"; cases "provision_product_with_plan a";
      cases "update_provisioned_product a"; cases "provision_product a")
     (auto simp: provision_or_update_def update_existing_def snd_and_then run_defs request_def
        split: sum.splits if_splits dest: check_stack_status_sent)

lemma provisioning_sent:
  "c \<in> set (snd (provisioning t a)) \<Longrightarrow> sent_params c = Some ps \<Longrightarrow> ps = params_to_use a"
  by (cases "terminate_if_status_is_not_available a")
     (auto simp: provisioning_def snd_and_then run_defs
        split: sum.splits if_splits prod.splits
        dest: check_need_to_provision_sent provision_or_update_sent)

lemma run_sent:
  "c \<in> set (snd (provision_product_run t a)) \<Longrightarrow> sent_params c = Some ps \<Longrightarrow> ps = params_to_use a"
  by (auto simp: provision_product_run_def snd_and_then split: sum.splits
       dest: provisioning_sent write_outputs_sent)

lemma check_need_compares:
  assumes "truthy ppid" "get_parameters_for_stack a (stack_name (account_id t) (py_str ppid)) = Inr live"
  shows "fst (check_need_to_provision t a ppid (Some (details_version_id a)) st)
           = Inr (st = Some ''TAINTED'' \<or> map_of live \<noteq> map_of (params_to_use a))"
  using assms by (simp add: check_need_to_provision_def run_defs dict_eq_map_of)


lemmas provision_defs =
  provision_product_run_def provisioning_def check_need_to_provision_def provision_or_update_def
  update_existing_def
  check_stack_status_def write_outputs_def params_to_use_def resolve_params_def dict_eq_def
  stack_name_def py_str_def truthy_def healthy_stack_statuses_def request_def
  ssm_parameter_name_def outputs_of_def task_output_of_def EXECUTION_MODE_HUB_def replace.simps

lemmas example_defs = example_task_def example_answers_def converged_answers_def

text \<open>
  C6. \<open>params_to_use\<close> has exactly the keys the artifact declares, each once (so a key
  that is supplied and not declared is absent). Under a declared key stands the supplied
  value, or the \<open>DefaultValue\<close> of the declaration when none is supplied (of the last
  declaration of that key, should the artifact declare it twice). Every provisioning,
  update or plan call of a run is given this very map, and the comparison with the
  stack's parameters, when the run makes it, is with this very map: \<open>need_to_provision\<close>
  is then true exactly when the status is TAINTED or the two maps differ.
\<close>

theorem params_to_use_compared_and_sent:
  "fst ` set (params_to_use a) = ParameterKey ` set (provisioning_artifact_parameters a)
   \<and> distinct (map fst (params_to_use a))
   \<and> (\<forall>k. map_of (params_to_use a) k
          = (case find (\<lambda>p. ParameterKey p = k) (rev (provisioning_artifact_parameters a)) of
               None \<Rightarrow> None
             | Some p \<Rightarrow>
                 Some (case parameter_values a k of Some v \<Rightarrow> Some v | None \<Rightarrow> DefaultValue p)))
   \<and> (\<forall>c ps. c \<in> set (snd (provision_product_run t a)) \<longrightarrow> sent_params c = Some ps
          \<longrightarrow> ps = params_to_use a)
   \<and> (\<forall>ppid live st.
          truthy ppid
          \<longrightarrow> get_parameters_for_stack a (stack_name (account_id t) (py_str ppid)) = Inr live
          \<longrightarrow> fst (check_need_to_provision t a ppid (Some (details_version_id a)) st)
                = Inr (st = Some ''TAINTED'' \<or> map_of live \<noteq> map_of (params_to_use a)))"
proof (intro conjI allI impI)
  show "fst ` set (params_to_use a) = ParameterKey ` set (provisioning_artifact_parameters a)"
    by (simp add: params_to_use_def resolve_params_keys)
  show "distinct (map fst (params_to_use a))"
    by (simp add: params_to_use_def resolve_params_distinct)
next
  fix k
  have "find (\<lambda>p. ParameterKey p = k) xs = Some p \<Longrightarrow> ParameterKey p = k"
    for xs :: "artifact_parameter list" and p
    by (induction xs) (auto split: if_splits)
  then show "map_of (params_to_use a) k
      = (case find (\<lambda>p. ParameterKey p = k) (rev (provisioning_artifact_parameters a)) of
           None \<Rightarrow> None
         | Some p \<Rightarrow>
             Some (case parameter_values a k of Some v \<Rightarrow> Some v | None \<Rightarrow> DefaultValue p))"
    by (auto simp: params_to_use_def resolve_params_map_of split: option.splits)
next
  fix c ps
  assume "c \<in> set (snd (provision_product_run t a))" "sent_params c = Some ps"
  then show "ps = params_to_use a" by (rule run_sent)
next
  fix ppid live st
  assume "truthy ppid"
    "get_parameters_for_stack a (stack_name (account_id t) (py_str ppid)) = Inr live"
  then show "fst (check_need_to_provision t a ppid (Some (details_version_id a)) st)
      = Inr (st = Some ''TAINTED'' \<or> map_of live \<noteq> map_of (params_to_use a))"
    by (rule check_need_compares)
qed

text \<open>The run of the scenario: the update is sent \<open>Foo=new\<close>.\<close>

lemma example_run:
  "snd (provision_product_run example_task example_answers) =
     [TerminateIfStatusIsNotAvailable ''L1'' ''prod-1'' ''111111111111'' ''us-east-1'',
      GetParametersForStack ''SC-111111111111-pp-1'',
      GetStackOutputFor ''SC-111111111111-pp-1'',
      UpdateProvisionedProduct
        \<lparr>req_launch_name = ''L1'', req_account_id = ''111111111111'',
         req_region = ''us-east-1'', req_product_id = ''prod-1'', req_version_id = ''pa-2'',
         req_puppet_account_id = ''000000000000'', req_path = ''networking'',
         req_params = [(''Foo'', Some ''new''), (''Bar'', Some ''bar-default'')],
         req_version = ''v2''\<rparr>
        ''hub'',
      GetStackOutputFor ''SC-111111111111-pp-1'',
      PutParameterAndWait ''/networking/us-east-1/111111111111/vpc-id'' ''vpc-123'' ''String'' True,
      WriteOutput
        \<lparr>out_puppet_account_id = ''000000000000'', out_launch_name = ''L1'',
         out_account_id = ''111111111111'', out_region = ''us-east-1'',
         out_cache_invalidator = ''run-1'', out_account_parameters = [],
         out_launch_parameters = [], out_manifest_parameters = []\<rparr>]"
  by (simp add: example_defs provision_defs run_defs)

theorem params_to_use_compared_and_sent_witness:
  "params_to_use example_answers = [(''Foo'', Some ''new''), (''Bar'', Some ''bar-default'')]
   \<and> map_of (params_to_use example_answers) ''Undeclared'' = None
   \<and> map_of (params_to_use example_answers) ''Bar'' = Some (Some ''bar-default'')
   \<and> UpdateProvisionedProduct (request example_task example_answers ''networking'') ''hub''
        \<in> set (snd (provision_product_run example_task example_answers))
   \<and> req_params (request example_task example_answers ''networking'')
        = params_to_use example_answers
   \<and> truthy (Some ''pp-1'')
   \<and> get_parameters_for_stack example_answers (stack_name (account_id example_task) ''pp-1'')
        = Inr [(''Foo'', Some ''old''), (''Bar'', Some ''bar-default'')]
   \<and> fst (check_need_to_provision example_task example_answers (Some ''pp-1'')
            (Some (details_version_id example_answers)) (Some ''AVAILABLE''))
        = Inr True"
proof -
  note th = params_to_use_compared_and_sent [of example_answers example_task]
  have p: "params_to_use example_answers = [(''Foo'', Some ''new''), (''Bar'', Some ''bar-default'')]"
    by (simp add: example_defs params_to_use_def resolve_params_def)
  have k: "map_of (params_to_use example_answers) ''Undeclared'' = None"
    "map_of (params_to_use example_answers) ''Bar'' = Some (Some ''bar-default'')"
    using th by (simp_all add: example_defs)
  have r: "request example_task example_answers ''networking'' =
        \<lparr>req_launch_name = ''L1'', req_account_id = ''111111111111'',
         req_region = ''us-east-1'', req_product_id = ''prod-1'', req_version_id = ''pa-2'',
         req_puppet_account_id = ''000000000000'', req_path = ''networking'',
         req_params = [(''Foo'', Some ''new''), (''Bar'', Some ''bar-default'')],
         req_version = ''v2''\<rparr>"
    by (simp add: request_def p) (simp add: example_defs)
  have m: "UpdateProvisionedProduct (request example_task example_answers ''networking'') ''hub''
        \<in> set (snd (provision_product_run example_task example_answers))"
    by (simp add: example_run r)
  have s: "sent_params (UpdateProvisionedProduct (request example_task example_answers ''networking'') ''hub'')
      = Some (req_params (request example_task example_answers ''networking''))"
    by simp
  have q: "req_params (request example_task example_answers ''networking'')
        = params_to_use example_answers"
    using th m s by blast
  have t: "truthy (Some ''pp-1'')" by (simp add: truthy_def)
  have g: "get_parameters_for_stack example_answers (stack_name (account_id example_task) ''pp-1'')
        = Inr [(''Foo'', Some ''old''), (''Bar'', Some ''bar-default'')]"
    by (simp add: example_defs)
  have g': "get_parameters_for_stack example_answers
       (stack_name (account_id example_task) (py_str (Some ''pp-1'')))
        = Inr [(''Foo'', Some ''old''), (''Bar'', Some ''bar-default'')]"
    by (simp add: example_defs)
  have "fst (check_need_to_provision example_task example_answers (Some ''pp-1'')
            (Some (details_version_id example_answers)) (Some ''AVAILABLE''))
        = Inr (Some ''AVAILABLE'' = Some ''TAINTED''
               \<or> map_of [(''Foo'', Some ''old''), (''Bar'', Some ''bar-default'')]
                   \<noteq> map_of (params_to_use example_answers))"
    using th t g' by blast
  moreover have "map_of [(''Foo'', Some ''old''), (''Bar'', Some ''bar-default'')]
                   \<noteq> map_of (params_to_use example_answers)"
    by (simp add: p fun_eq_iff)
  ultimately have c: "fst (check_need_to_provision example_task example_answers (Some ''pp-1'')
            (Some (details_version_id example_answers)) (Some ''AVAILABLE''))
        = Inr True"
    by simp
  show ?thesis using p k m q t g c by blast
qed

subsection \<open>ProvisionProductTask.run when nothing has changed\<close>

lemma write_outputs_mutating:
  "c \<in> set (snd (write_outputs t a ppid)) \<Longrightarrow> mutating c \<Longrightarrow> is_put c"
  by (cases "get_stack_output_for_ssm a (stack_name (account_id t) (py_str ppid))")
     (auto simp: write_outputs_def snd_and_then run_defs split: sum.splits if_splits
        dest!: write_ssm_param_outputs_sent)

lemma write_outputs_may_terminate:
  "c \<in> set (snd (write_outputs t a ppid)) \<Longrightarrow> \<not> may_terminate c"
  by (cases "get_stack_output_for_ssm a (stack_name (account_id t) (py_str ppid))")
     (auto simp: write_outputs_def snd_and_then run_defs split: sum.splits if_splits
        dest!: write_ssm_param_outputs_sent elim: is_put.elims)

lemma write_outputs_spoke:
  "execution t \<noteq> EXECUTION_MODE_HUB \<Longrightarrow>
   write_outputs t a ppid = (Inr (), [WriteOutput (task_output_of t)])"
  by (simp add: write_outputs_def run_defs)

lemma write_outputs_no_bindings:
  "ssm_param_outputs t = [] \<Longrightarrow> c \<in> set (snd (write_outputs t a ppid)) \<Longrightarrow> \<not> mutating c"
  by (cases "get_stack_output_for_ssm a (stack_name (account_id t) (py_str ppid))")
     (auto simp: write_outputs_def snd_and_then run_defs split: sum.splits if_splits)

text \<open>
  C1, as the code has it. When the pre-check gives a product id, the artifact id it gives
  is the wanted version id, the stack's parameters equal \<open>params_to_use\<close> and the
  status is not TAINTED, then \<open>need_to_provision\<close> is false (NO_CHANGE) and the run goes
  from the comparison straight to the post-provision part: it issues no provisioning,
  update or plan call and no delete, and the only call that may terminate is the
  pre-check helper at its head. The one kind of mutating call it may issue is the put of
  a parameter, in hub execution mode, for the declared SSM output bindings; run from a
  spoke, or with no binding declared, it issues no mutating call at all.
\<close>

theorem unchanged_run_provisions_nothing:
  assumes pre: "terminate_if_status_is_not_available a
                  = Inr (Some ppid, Some (details_version_id a), st)"
    and exists: "ppid \<noteq> []"
    and live: "get_parameters_for_stack a (stack_name (account_id t) ppid) = Inr live"
    and same: "map_of live = map_of (params_to_use a)"
    and untainted: "st \<noteq> Some ''TAINTED''"
  shows "fst (check_need_to_provision t a (Some ppid) (Some (details_version_id a)) st) = Inr False
    \<and> provision_product_run t a
        = (fst (write_outputs t a (Some ppid)),
           [TerminateIfStatusIsNotAvailable (launch_name t) (details_product_id a)
              (account_id t) (region t),
            GetParametersForStack (stack_name (account_id t) ppid)]
           @ snd (write_outputs t a (Some ppid)))
    \<and> (\<forall>c \<in> set (snd (provision_product_run t a)). mutating c \<longrightarrow> is_put c)
    \<and> filter may_terminate (snd (provision_product_run t a))
        = [TerminateIfStatusIsNotAvailable (launch_name t) (details_product_id a)
             (account_id t) (region t)]
    \<and> (execution t \<noteq> EXECUTION_MODE_HUB \<or> ssm_param_outputs t = []
         \<longrightarrow> (\<forall>c \<in> set (snd (provision_product_run t a)). \<not> mutating c))"
proof -
  have need: "check_need_to_provision t a (Some ppid) (Some (details_version_id a)) st
      = (Inr False, [GetParametersForStack (stack_name (account_id t) ppid)])"
    using exists live same untainted
    by (simp add: check_need_to_provision_def truthy_def py_str_def dict_eq_map_of run_defs)
  have prov: "provisioning t a
      = (Inr (Some ppid),
         [TerminateIfStatusIsNotAvailable (launch_name t) (details_product_id a)
            (account_id t) (region t),
          GetParametersForStack (stack_name (account_id t) ppid)])"
    using pre need by (simp add: provisioning_def run_defs)
  have run: "provision_product_run t a
        = (fst (write_outputs t a (Some ppid)),
           [TerminateIfStatusIsNotAvailable (launch_name t) (details_product_id a)
              (account_id t) (region t),
            GetParametersForStack (stack_name (account_id t) ppid)]
           @ snd (write_outputs t a (Some ppid)))"
    by (simp add: provision_product_run_def prov)
  have puts: "\<forall>c \<in> set (snd (provision_product_run t a)). mutating c \<longrightarrow> is_put c"
    by (auto simp: run dest: write_outputs_mutating)
  have tm: "filter may_terminate (snd (provision_product_run t a))
        = [TerminateIfStatusIsNotAvailable (launch_name t) (details_product_id a)
             (account_id t) (region t)]"
    by (simp add: run filter_empty_conv write_outputs_may_terminate)
  have none: "execution t \<noteq> EXECUTION_MODE_HUB \<or> ssm_param_outputs t = []
         \<longrightarrow> (\<forall>c \<in> set (snd (provision_product_run t a)). \<not> mutating c)"
    by (auto simp: run write_outputs_spoke dest: write_outputs_no_bindings)
  show ?thesis using need run puts tm none by simp
qed

text \<open>The run of the scenario when nothing has changed, from the hub.\<close>

lemma converged_run:
  "provision_product_run example_task converged_answers =
     (Inr (),
      [TerminateIfStatusIsNotAvailable ''L1'' ''prod-1'' ''111111111111'' ''us-east-1'',
       GetParametersForStack ''SC-111111111111-pp-1'',
       GetStackOutputFor ''SC-111111111111-pp-1'',
       PutParameterAndWait ''/networking/us-east-1/111111111111/vpc-id'' ''vpc-123'' ''String'' True,
       WriteOutput (task_output_of example_task)])"
  by (simp add: example_defs provision_defs run_defs)

lemma converged_params:
  "params_to_use converged_answers = [(''Foo'', Some ''new''), (''Bar'', Some ''bar-default'')]"
  by (simp add: example_defs params_to_use_def resolve_params_def)

theorem unchanged_run_provisions_nothing_witness:
  "terminate_if_status_is_not_available converged_answers
     = Inr (Some ''pp-1'', Some (details_version_id converged_answers), Some ''AVAILABLE'')
   \<and> get_parameters_for_stack converged_answers (stack_name (account_id example_task) ''pp-1'')
     = Inr [(''Bar'', Some ''bar-default''), (''Foo'', Some ''new'')]
   \<and> map_of [(''Bar'', Some ''bar-default''), (''Foo'', Some ''new'')]
     = map_of (params_to_use converged_answers)
   \<and> fst (check_need_to_provision example_task converged_answers (Some ''pp-1'')
            (Some (details_version_id converged_answers)) (Some ''AVAILABLE''))
     = Inr False
   \<and> filter mutating (snd (provision_product_run example_task converged_answers))
     = [PutParameterAndWait ''/networking/us-east-1/111111111111/vpc-id'' ''vpc-123'' ''String'' True]
   \<and> filter mutating (snd (provision_product_run spoke_task converged_answers)) = []"
proof -
  have pre: "terminate_if_status_is_not_available converged_answers
     = Inr (Some ''pp-1'', Some (details_version_id converged_answers), Some ''AVAILABLE'')"
    by (simp add: example_defs)
  have ex: "''pp-1'' \<noteq> []" by simp
  have live: "get_parameters_for_stack converged_answers (stack_name (account_id example_task) ''pp-1'')
     = Inr [(''Bar'', Some ''bar-default''), (''Foo'', Some ''new'')]"
    by (simp add: example_defs)
  have live': "get_parameters_for_stack converged_answers (stack_name (account_id spoke_task) ''pp-1'')
     = Inr [(''Bar'', Some ''bar-default''), (''Foo'', Some ''new'')]"
    by (simp add: example_defs)
  have same: "map_of [(''Bar'', Some ''bar-default''), (''Foo'', Some ''new'')]
     = map_of (params_to_use converged_answers)"
    by (auto simp: converged_params fun_eq_iff)
  have un: "Some ''AVAILABLE'' \<noteq> Some ''TAINTED''" by simp
  note hub = unchanged_run_provisions_nothing [OF pre ex live same un]
  note spoke = unchanged_run_provisions_nothing [OF pre ex live' same un]
  have "execution spoke_task \<noteq> EXECUTION_MODE_HUB"
    by (simp add: spoke_task_def EXECUTION_MODE_HUB_def)
  with spoke have "\<forall>c \<in> set (snd (provision_product_run spoke_task converged_answers)). \<not> mutating c"
    by blast
  then have s: "filter mutating (snd (provision_product_run spoke_task converged_answers)) = []"
    by (simp add: filter_empty_conv)
  have h: "filter mutating (snd (provision_product_run example_task converged_answers))
     = [PutParameterAndWait ''/networking/us-east-1/111111111111/vpc-id'' ''vpc-123'' ''String'' True]"
    by (simp add: converged_run)
  show ?thesis using pre live same hub s h by simp
qed

text \<open>
  C1 as stated fails twice. With the product TAINTED, the artifact id, the product id and
  the parameters all as wanted, \<open>need_to_provision\<close> is true and the update is issued.
  With the product AVAILABLE and all as wanted, the run from the hub still puts the
  parameter of the declared binding.
\<close>

theorem unchanged_run_still_mutates:
  "(terminate_if_status_is_not_available tainted_answers
      = Inr (Some ''pp-1'', Some (details_version_id tainted_answers), Some ''TAINTED'')
    \<and> get_parameters_for_stack tainted_answers (stack_name (account_id spoke_task) ''pp-1'')
      = Inr [(''Bar'', Some ''bar-default''), (''Foo'', Some ''new'')]
    \<and> dict_eq [(''Bar'', Some ''bar-default''), (''Foo'', Some ''new'')]
        (params_to_use tainted_answers)
    \<and> fst (check_need_to_provision spoke_task tainted_answers (Some ''pp-1'')
             (Some (details_version_id tainted_answers)) (Some ''TAINTED''))
      = Inr True
    \<and> filter mutating (snd (provision_product_run spoke_task tainted_answers))
      = [UpdateProvisionedProduct (request spoke_task tainted_answers ''networking'') ''spoke''])
   \<and> (terminate_if_status_is_not_available converged_answers
      = Inr (Some ''pp-1'', Some (details_version_id converged_answers), Some ''AVAILABLE'')
    \<and> get_parameters_for_stack converged_answers (stack_name (account_id example_task) ''pp-1'')
      = Inr [(''Bar'', Some ''bar-default''), (''Foo'', Some ''new'')]
    \<and> dict_eq [(''Bar'', Some ''bar-default''), (''Foo'', Some ''new'')]
        (params_to_use converged_answers)
    \<and> filter mutating (snd (provision_product_run example_task converged_answers))
      = [PutParameterAndWait ''/networking/us-east-1/111111111111/vpc-id'' ''vpc-123''
           ''String'' True])"
  by (simp add: example_defs tainted_answers_def spoke_task_def provision_defs run_defs)

subsection \<open>ProvisionProductTask.run: the stack status before an update\<close>

lemma check_need_to_provision_reads:
  "c \<in> set (snd (check_need_to_provision t a ppid paid st)) \<Longrightarrow> \<not> mutating c"
  by (cases "get_parameters_for_stack a (stack_name (account_id t) (py_str ppid))")
     (auto simp: check_need_to_provision_def snd_and_then run_defs split: sum.splits if_splits)

lemma update_existing_calls:
  "(\<not> should_use_product_plans t \<longrightarrow>
      snd (update_existing t a) = [UpdateProvisionedProduct (request t a (portfolio t)) (execution t)])
   \<and> (should_use_product_plans t \<longrightarrow>
        (\<forall>path_id. get_path_for_product a = Inr path_id \<longrightarrow>
           snd (update_existing t a)
             = [GetPathForProduct (details_product_id a) (portfolio t),
                ProvisionProductWithPlan (request t a path_id) (should_use_sns t)]))"
  by (cases "update_provisioned_product a"; cases "provision_product_with_plan a")
     (auto simp: update_existing_def run_defs)

text \<open>
  C7. A product id is there and \<open>need_to_provision\<close> is true. With a stack status outside
  UPDATE_COMPLETE, CREATE_COMPLETE and UPDATE_ROLLBACK_COMPLETE the run ends by raising,
  right after the read of the stack, and has issued no mutating call. With a status
  among the three, the read of the stack is followed by the calls of the update (the
  update itself, or the launch path and then the plan), and with UPDATE_ROLLBACK_COMPLETE
  the warning is emitted between the read and those calls.
\<close>

theorem update_only_on_healthy_stack:
  assumes pre: "terminate_if_status_is_not_available a = Inr (Some ppid, paid, st)"
    and exists: "ppid \<noteq> []"
    and need: "fst (check_need_to_provision t a (Some ppid) paid st) = Inr True"
    and stack: "get_stack_output_for a (stack_name (account_id t) ppid) = Inr s"
  shows "(StackStatus s \<notin> {''UPDATE_COMPLETE'', ''CREATE_COMPLETE'', ''UPDATE_ROLLBACK_COMPLETE''}
          \<longrightarrow> provision_product_run t a
                = (Inl (StackStatusError (StackStatus s)),
                   TerminateIfStatusIsNotAvailable (launch_name t) (details_product_id a)
                     (account_id t) (region t)
                   # snd (check_need_to_provision t a (Some ppid) paid st)
                   @ [GetStackOutputFor (stack_name (account_id t) ppid)])
              \<and> (\<forall>c \<in> set (snd (provision_product_run t a)). \<not> mutating c))
    \<and> (StackStatus s \<in> {''UPDATE_COMPLETE'', ''CREATE_COMPLETE'', ''UPDATE_ROLLBACK_COMPLETE''}
          \<longrightarrow> snd (provisioning t a)
                = TerminateIfStatusIsNotAvailable (launch_name t) (details_product_id a)
                    (account_id t) (region t)
                  # snd (check_need_to_provision t a (Some ppid) paid st)
                  @ GetStackOutputFor (stack_name (account_id t) ppid)
                  # (if StackStatus s = ''UPDATE_ROLLBACK_COMPLETE''
                     then [WarnManualResolution (stack_name (account_id t) ppid) (StackStatus s)]
                     else [])
                  @ snd (update_existing t a))
    \<and> (\<not> should_use_product_plans t \<longrightarrow>
          snd (update_existing t a)
            = [UpdateProvisionedProduct (request t a (portfolio t)) (execution t)])
    \<and> (should_use_product_plans t \<longrightarrow>
          (\<forall>path_id. get_path_for_product a = Inr path_id \<longrightarrow>
             snd (update_existing t a)
               = [GetPathForProduct (details_product_id a) (portfolio t),
                  ProvisionProductWithPlan (request t a path_id) (should_use_sns t)]))"
proof -
  let ?pre = "TerminateIfStatusIsNotAvailable (launch_name t) (details_product_id a)
                (account_id t) (region t)"
  let ?n = "stack_name (account_id t) ppid"
  let ?healthy = "{''UPDATE_COMPLETE'', ''CREATE_COMPLETE'', ''UPDATE_ROLLBACK_COMPLETE''}"
  obtain cs where chk: "check_need_to_provision t a (Some ppid) paid st = (Inr True, cs)"
    using need by (cases "check_need_to_provision t a (Some ppid) paid st") simp
  have reads: "\<forall>c \<in> set cs. \<not> mutating c"
    using check_need_to_provision_reads [of _ t a "Some ppid" paid st] by (simp add: chk)
  have prov: "provisioning t a
      = (fst (provision_or_update t a (Some ppid)),
         ?pre # cs @ snd (provision_or_update t a (Some ppid)))"
    using pre by (simp add: provisioning_def chk run_defs)
  have bad: "provision_or_update t a (Some ppid)
      = (Inl (StackStatusError (StackStatus s)), [GetStackOutputFor ?n])"
    if "StackStatus s \<notin> ?healthy"
    using that exists stack
    by (simp add: provision_or_update_def check_stack_status_def truthy_def py_str_def
        healthy_stack_statuses_def run_defs)
  have good: "snd (provision_or_update t a (Some ppid))
      = GetStackOutputFor ?n
        # (if StackStatus s = ''UPDATE_ROLLBACK_COMPLETE''
           then [WarnManualResolution ?n (StackStatus s)] else [])
        @ snd (update_existing t a)"
    if "StackStatus s \<in> ?healthy"
    using that exists stack
    by (auto simp: provision_or_update_def check_stack_status_def truthy_def py_str_def
        healthy_stack_statuses_def run_defs)
  have c1: "StackStatus s \<notin> ?healthy
          \<longrightarrow> provision_product_run t a
                = (Inl (StackStatusError (StackStatus s)),
                   ?pre # snd (check_need_to_provision t a (Some ppid) paid st)
                   @ [GetStackOutputFor ?n])
              \<and> (\<forall>c \<in> set (snd (provision_product_run t a)). \<not> mutating c)"
  proof
    assume u: "StackStatus s \<notin> ?healthy"
    have run: "provision_product_run t a
        = (Inl (StackStatusError (StackStatus s)), ?pre # cs @ [GetStackOutputFor ?n])"
      by (simp add: provision_product_run_def prov bad [OF u])
    then show "provision_product_run t a
                = (Inl (StackStatusError (StackStatus s)),
                   ?pre # snd (check_need_to_provision t a (Some ppid) paid st)
                   @ [GetStackOutputFor ?n])
              \<and> (\<forall>c \<in> set (snd (provision_product_run t a)). \<not> mutating c)"
      using reads by (auto simp: chk)
  qed
  have c2: "StackStatus s \<in> ?healthy
          \<longrightarrow> snd (provisioning t a)
                = ?pre # snd (check_need_to_provision t a (Some ppid) paid st)
                  @ GetStackOutputFor ?n
                  # (if StackStatus s = ''UPDATE_ROLLBACK_COMPLETE''
                     then [WarnManualResolution ?n (StackStatus s)] else [])
                  @ snd (update_existing t a)"
    using good by (simp add: prov chk)
  show ?thesis using c1 c2 update_existing_calls [of t a] by blast
qed

text \<open>The scenario at a stack that failed to roll back, and at one that rolled back.\<close>

lemma failed_stack_run:
  "provision_product_run example_task (stack_answers ''UPDATE_ROLLBACK_FAILED'')
     = (Inl (StackStatusError ''UPDATE_ROLLBACK_FAILED''),
        [TerminateIfStatusIsNotAvailable ''L1'' ''prod-1'' ''111111111111'' ''us-east-1'',
         GetParametersForStack ''SC-111111111111-pp-1'',
         GetStackOutputFor ''SC-111111111111-pp-1''])"
  by (simp add: stack_answers_def example_defs provision_defs run_defs)

lemma rolled_back_stack_run:
  "snd (provisioning example_task (stack_answers ''UPDATE_ROLLBACK_COMPLETE''))
     = [TerminateIfStatusIsNotAvailable ''L1'' ''prod-1'' ''111111111111'' ''us-east-1'',
        GetParametersForStack ''SC-111111111111-pp-1'',
        GetStackOutputFor ''SC-111111111111-pp-1'',
        WarnManualResolution ''SC-111111111111-pp-1'' ''UPDATE_ROLLBACK_COMPLETE'',
        UpdateProvisionedProduct
          (request example_task (stack_answers ''UPDATE_ROLLBACK_COMPLETE'') ''networking'') ''hub'']"
  by (simp add: stack_answers_def example_defs provision_defs run_defs)

theorem update_only_on_healthy_stack_witness:
  "terminate_if_status_is_not_available (stack_answers ''UPDATE_ROLLBACK_FAILED'')
     = Inr (Some ''pp-1'', Some ''pa-2'', Some ''AVAILABLE'')
   \<and> fst (check_need_to_provision example_task (stack_answers ''UPDATE_ROLLBACK_FAILED'')
            (Some ''pp-1'') (Some ''pa-2'') (Some ''AVAILABLE'')) = Inr True
   \<and> get_stack_output_for (stack_answers ''UPDATE_ROLLBACK_FAILED'')
        (stack_name (account_id example_task) ''pp-1'')
     = Inr \<lparr>StackStatus = ''UPDATE_ROLLBACK_FAILED'', Outputs = None\<rparr>
   \<and> fst (provision_product_run example_task (stack_answers ''UPDATE_ROLLBACK_FAILED''))
     = Inl (StackStatusError ''UPDATE_ROLLBACK_FAILED'')
   \<and> filter mutating (snd (provision_product_run example_task (stack_answers ''UPDATE_ROLLBACK_FAILED'')))
     = []
   \<and> snd (provisioning example_task (stack_answers ''UPDATE_ROLLBACK_COMPLETE''))
     = [TerminateIfStatusIsNotAvailable ''L1'' ''prod-1'' ''111111111111'' ''us-east-1'',
        GetParametersForStack ''SC-111111111111-pp-1'',
        GetStackOutputFor ''SC-111111111111-pp-1'',
        WarnManualResolution ''SC-111111111111-pp-1'' ''UPDATE_ROLLBACK_COMPLETE'',
        UpdateProvisionedProduct
          (request example_task (stack_answers ''UPDATE_ROLLBACK_COMPLETE'') ''networking'') ''hub'']"
proof -
  let ?bad = "stack_answers ''UPDATE_ROLLBACK_FAILED''"
  let ?rb = "stack_answers ''UPDATE_ROLLBACK_COMPLETE''"
  have pre: "terminate_if_status_is_not_available (stack_answers x)
     = Inr (Some ''pp-1'', Some ''pa-2'', Some ''AVAILABLE'')" for x
    by (simp add: stack_answers_def example_defs)
  have ex: "''pp-1'' \<noteq> []" by simp
  have need: "fst (check_need_to_provision example_task (stack_answers x)
            (Some ''pp-1'') (Some ''pa-2'') (Some ''AVAILABLE'')) = Inr True" for x
    by (simp add: stack_answers_def example_defs provision_defs run_defs)
  have stack: "get_stack_output_for (stack_answers x) (stack_name (account_id example_task) ''pp-1'')
     = Inr \<lparr>StackStatus = x, Outputs = None\<rparr>" for x
    by (simp add: stack_answers_def example_defs)
  note bad = update_only_on_healthy_stack [OF pre ex need stack, of "''UPDATE_ROLLBACK_FAILED''"]
  note rb = update_only_on_healthy_stack [OF pre ex need stack, of "''UPDATE_ROLLBACK_COMPLETE''"]
  have b1: "fst (provision_product_run example_task ?bad) = Inl (StackStatusError ''UPDATE_ROLLBACK_FAILED'')"
    and b2: "\<forall>c \<in> set (snd (provision_product_run example_task ?bad)). \<not> mutating c"
    using bad by simp_all
  have b3: "filter mutating (snd (provision_product_run example_task ?bad)) = []"
    using b2 by (simp add: filter_empty_conv)
  have np: "\<not> should_use_product_plans example_task" by (simp add: example_defs)
  have chk: "snd (check_need_to_provision example_task ?rb (Some ''pp-1'') (Some ''pa-2'') (Some ''AVAILABLE''))
      = [GetParametersForStack ''SC-111111111111-pp-1'']"
    by (simp add: stack_answers_def example_defs provision_defs run_defs)
  have r1: "snd (provisioning example_task ?rb)
     = [TerminateIfStatusIsNotAvailable ''L1'' ''prod-1'' ''111111111111'' ''us-east-1'',
        GetParametersForStack ''SC-111111111111-pp-1'',
        GetStackOutputFor ''SC-111111111111-pp-1'',
        WarnManualResolution ''SC-111111111111-pp-1'' ''UPDATE_ROLLBACK_COMPLETE'',
        UpdateProvisionedProduct (request example_task ?rb ''networking'') ''hub'']"
    using rb np chk by (simp add: stack_name_def) (simp add: stack_answers_def example_defs)
  show ?thesis using pre need stack b1 b3 r1 by simp
qed

subsection \<open>ProvisionProductTask.run: the declared SSM output bindings\<close>

text \<open>The inner loop puts once for every output of the binding's key.\<close>

lemma put_matching_outputs_puts:
  assumes "put_parameter_and_wait a (ssm_parameter_name t b) = Inr ()"
  shows "snd (put_matching_outputs t a b found outs)
     = map (\<lambda>out. PutParameterAndWait (ssm_parameter_name t b) (OutputValue out)
                   (case param_type b of None \<Rightarrow> ''String'' | Some ty \<Rightarrow> ty) True)
         (filter (\<lambda>out. OutputKey out = stack_output b) outs)"
  using assms by (induction outs arbitrary: found) (simp_all add: run_defs)

lemma put_matching_outputs_no_match:
  "stack_output b \<notin> OutputKey ` set outs \<Longrightarrow>
   put_matching_outputs t a b found outs = (Inr found, [])"
  by (induction outs) (auto simp: run_defs)

lemma put_matching_outputs_match:
  assumes "distinct (map OutputKey outs)"
    and "stack_output b \<in> OutputKey ` set outs"
    and "put_parameter_and_wait a (ssm_parameter_name t b) = Inr ()"
  shows "put_matching_outputs t a b found outs = (Inr True, [put_for t outs b])"
  using assms
proof (induction outs arbitrary: found)
  case Nil
  then show ?case by simp
next
  case (Cons x outs)
  show ?case
  proof (cases "OutputKey x = stack_output b")
    case True
    with Cons.prems have "stack_output b \<notin> OutputKey ` set outs" by auto
    then have "put_matching_outputs t a b True outs = (Inr True, [])"
      by (rule put_matching_outputs_no_match)
    with True Cons.prems show ?thesis
      by (simp add: run_defs put_for_def output_value_def ssm_parameter_name_def)
  next
    case False
    with Cons.prems have "put_matching_outputs t a b found outs = (Inr True, [put_for t outs b])"
      by (intro Cons.IH) auto
    with False show ?thesis
      by (simp add: put_for_def output_value_def)
  qed
qed

lemma write_ssm_param_outputs_result:
  assumes "distinct (map OutputKey outs)"
    and "\<forall>b \<in> set bs. put_parameter_and_wait a (ssm_parameter_name t b) = Inr ()"
  shows "write_ssm_param_outputs t a outs bs
     = (if \<forall>b \<in> set bs. matched outs b then Inr ()
        else Inl (CouldNotFindMatch (stack_output (hd (dropWhile (matched outs) bs)))),
        map (put_for t outs) (takeWhile (matched outs) bs))"
  using assms(2)
proof (induction bs)
  case Nil
  then show ?case by (simp add: run_defs)
next
  case (Cons b bs)
  show ?case
  proof (cases "matched outs b")
    case True
    then have "put_matching_outputs t a b False outs = (Inr True, [put_for t outs b])"
      using assms(1) Cons.prems by (intro put_matching_outputs_match) (auto simp: matched_def)
    moreover have "write_ssm_param_outputs t a outs bs
      = (if \<forall>b \<in> set bs. matched outs b then Inr ()
         else Inl (CouldNotFindMatch (stack_output (hd (dropWhile (matched outs) bs)))),
         map (put_for t outs) (takeWhile (matched outs) bs))"
      using Cons.prems by (intro Cons.IH) auto
    ultimately show ?thesis using True by (simp add: run_defs)
  next
    case False
    then have "put_matching_outputs t a b False outs = (Inr False, [])"
      by (intro put_matching_outputs_no_match) (simp add: matched_def)
    then show ?thesis using False by (auto simp: run_defs)
  qed
qed

text \<open>
  C3, as the code has it. The provisioning part has returned, the execution mode is hub,
  the stack is read with output keys that are distinct (as the keys of a stack's outputs
  are), and the puts succeed. The declared bindings are taken in the order of
  declaration. When every declared binding is matched, the run issues, after the read of
  the stack, exactly one put for each binding, each as \<open>put_for\<close> says, and then writes its
  output and returns. When some binding is not matched, the run ends by raising "Could
  not find match" for the first such binding, after exactly one put for each binding
  declared before it, and writes no output: a binding declared after it gets no put,
  matched or not.
\<close>

theorem declared_bindings_are_written_or_fatal:
  assumes provisioned: "fst (provisioning t a) = Inr ppid"
    and hub: "execution t = EXECUTION_MODE_HUB"
    and stack: "get_stack_output_for_ssm a (stack_name (account_id t) (py_str ppid)) = Inr s"
    and keys: "distinct (map OutputKey (outputs_of s))"
    and puts: "\<forall>b \<in> set (ssm_param_outputs t).
                 put_parameter_and_wait a (ssm_parameter_name t b) = Inr ()"
  shows "provision_product_run t a
     = (if \<forall>b \<in> set (ssm_param_outputs t). matched (outputs_of s) b
        then (Inr (),
              snd (provisioning t a)
              @ GetStackOutputFor (stack_name (account_id t) (py_str ppid))
              # map (put_for t (outputs_of s)) (ssm_param_outputs t)
              @ [WriteOutput (task_output_of t)])
        else (Inl (CouldNotFindMatch
                     (stack_output (hd (dropWhile (matched (outputs_of s)) (ssm_param_outputs t))))),
              snd (provisioning t a)
              @ GetStackOutputFor (stack_name (account_id t) (py_str ppid))
              # map (put_for t (outputs_of s))
                  (takeWhile (matched (outputs_of s)) (ssm_param_outputs t))))"
proof -
  obtain cs where p: "provisioning t a = (Inr ppid, cs)"
    using provisioned by (cases "provisioning t a") simp
  have w: "write_ssm_param_outputs t a (outputs_of s) (ssm_param_outputs t)
     = (if \<forall>b \<in> set (ssm_param_outputs t). matched (outputs_of s) b then Inr ()
        else Inl (CouldNotFindMatch
               (stack_output (hd (dropWhile (matched (outputs_of s)) (ssm_param_outputs t))))),
        map (put_for t (outputs_of s)) (takeWhile (matched (outputs_of s)) (ssm_param_outputs t)))"
    using keys puts by (rule write_ssm_param_outputs_result)
  show ?thesis
  proof (cases "\<forall>b \<in> set (ssm_param_outputs t). matched (outputs_of s) b")
    case True
    then have tw: "takeWhile (matched (outputs_of s)) (ssm_param_outputs t) = ssm_param_outputs t"
      by (simp add: takeWhile_eq_all_conv)
    have "write_ssm_param_outputs t a (outputs_of s) (ssm_param_outputs t)
        = (Inr (), map (put_for t (outputs_of s)) (ssm_param_outputs t))"
      using True by (simp add: w tw)
    then show ?thesis using hub stack
      by (subst if_P [OF True])
         (simp add: provision_product_run_def p write_outputs_def run_defs)
  next
    case False
    have "write_ssm_param_outputs t a (outputs_of s) (ssm_param_outputs t)
        = (Inl (CouldNotFindMatch
                 (stack_output (hd (dropWhile (matched (outputs_of s)) (ssm_param_outputs t))))),
           map (put_for t (outputs_of s))
             (takeWhile (matched (outputs_of s)) (ssm_param_outputs t)))"
      by (simp only: w False if_False)
    then show ?thesis using hub stack
      by (subst if_not_P [OF False])
         (simp add: provision_product_run_def p write_outputs_def run_defs)
  qed
qed

theorem declared_bindings_are_written_or_fatal_witness:
  "fst (provisioning example_task converged_answers) = Inr (Some ''pp-1'')
   \<and> execution example_task = EXECUTION_MODE_HUB
   \<and> get_stack_output_for_ssm converged_answers ''SC-111111111111-pp-1''
       = Inr \<lparr>StackStatus = ''UPDATE_COMPLETE'',
              Outputs = Some [\<lparr>OutputKey = ''VpcId'', OutputValue = ''vpc-123''\<rparr>]\<rparr>
   \<and> provision_product_run example_task converged_answers
       = (Inr (),
          [TerminateIfStatusIsNotAvailable ''L1'' ''prod-1'' ''111111111111'' ''us-east-1'',
           GetParametersForStack ''SC-111111111111-pp-1'',
           GetStackOutputFor ''SC-111111111111-pp-1'',
           PutParameterAndWait ''/networking/us-east-1/111111111111/vpc-id'' ''vpc-123''
             ''String'' True,
           WriteOutput (task_output_of example_task)])
   \<and> provision_product_run two_bindings_task converged_answers
       = (Inl (CouldNotFindMatch ''SubnetId''),
          [TerminateIfStatusIsNotAvailable ''L1'' ''prod-1'' ''111111111111'' ''us-east-1'',
           GetParametersForStack ''SC-111111111111-pp-1'',
           GetStackOutputFor ''SC-111111111111-pp-1'',
           PutParameterAndWait ''/networking/us-east-1/111111111111/vpc-id'' ''vpc-123''
             ''String'' True])"
proof -
  let ?s = "\<lparr>StackStatus = ''UPDATE_COMPLETE'',
              Outputs = Some [\<lparr>OutputKey = ''VpcId'', OutputValue = ''vpc-123''\<rparr>]\<rparr>"
  have prov: "provisioning example_task converged_answers
      = (Inr (Some ''pp-1''),
         [TerminateIfStatusIsNotAvailable ''L1'' ''prod-1'' ''111111111111'' ''us-east-1'',
          GetParametersForStack ''SC-111111111111-pp-1''])"
    by (simp add: example_defs provision_defs run_defs)
  have prov2: "provisioning two_bindings_task converged_answers
      = (Inr (Some ''pp-1''),
         [TerminateIfStatusIsNotAvailable ''L1'' ''prod-1'' ''111111111111'' ''us-east-1'',
          GetParametersForStack ''SC-111111111111-pp-1''])"
    by (simp add: two_bindings_task_def example_defs provision_defs run_defs)
  have hub: "execution example_task = EXECUTION_MODE_HUB"
    "execution two_bindings_task = EXECUTION_MODE_HUB"
    by (simp_all add: two_bindings_task_def example_defs EXECUTION_MODE_HUB_def)
  have stack: "get_stack_output_for_ssm converged_answers
        (stack_name (account_id example_task) (py_str (Some ''pp-1''))) = Inr ?s"
    "get_stack_output_for_ssm converged_answers
        (stack_name (account_id two_bindings_task) (py_str (Some ''pp-1''))) = Inr ?s"
    by (simp_all add: example_defs)
  have stack': "get_stack_output_for_ssm converged_answers ''SC-111111111111-pp-1'' = Inr ?s"
    by (simp add: example_defs)
  have keys: "distinct (map OutputKey (outputs_of ?s))"
    by (simp add: outputs_of_def)
  have puts: "\<forall>b \<in> set (ssm_param_outputs example_task).
       put_parameter_and_wait converged_answers (ssm_parameter_name example_task b) = Inr ()"
    "\<forall>b \<in> set (ssm_param_outputs two_bindings_task).
       put_parameter_and_wait converged_answers (ssm_parameter_name two_bindings_task b) = Inr ()"
    by (simp_all add: example_defs)
  have p1: "fst (provisioning example_task converged_answers) = Inr (Some ''pp-1'')"
    and p2: "fst (provisioning two_bindings_task converged_answers) = Inr (Some ''pp-1'')"
    by (simp_all add: prov prov2)
  note one = declared_bindings_are_written_or_fatal [OF p1 hub(1) stack(1) keys puts(1)]
  note two = declared_bindings_are_written_or_fatal [OF p2 hub(2) stack(2) keys puts(2)]
  have r1: "provision_product_run example_task converged_answers
       = (Inr (),
          [TerminateIfStatusIsNotAvailable ''L1'' ''prod-1'' ''111111111111'' ''us-east-1'',
           GetParametersForStack ''SC-111111111111-pp-1'',
           GetStackOutputFor ''SC-111111111111-pp-1'',
           PutParameterAndWait ''/networking/us-east-1/111111111111/vpc-id'' ''vpc-123''
             ''String'' True,
           WriteOutput (task_output_of example_task)])"
    unfolding one prov
    by (simp add: matched_def put_for_def output_value_def outputs_of_def stack_name_def py_str_def
          replace.simps example_task_def)
  have r2: "provision_product_run two_bindings_task converged_answers
       = (Inl (CouldNotFindMatch ''SubnetId''),
          [TerminateIfStatusIsNotAvailable ''L1'' ''prod-1'' ''111111111111'' ''us-east-1'',
           GetParametersForStack ''SC-111111111111-pp-1'',
           GetStackOutputFor ''SC-111111111111-pp-1'',
           PutParameterAndWait ''/networking/us-east-1/111111111111/vpc-id'' ''vpc-123''
             ''String'' True])"
    unfolding two prov2
    by (simp add: matched_def put_for_def output_value_def outputs_of_def stack_name_def py_str_def
          replace.simps two_bindings_task_def example_task_def)
  show ?thesis using p1 hub(1) stack' r1 r2 by simp
qed

text \<open>
  C3 as stated fails: not every declared binding with a matching key gets its put. With
  the binding to \<open>SubnetId\<close> declared before the binding to \<open>VpcId\<close> and a stack whose only
  output is \<open>VpcId\<close>, the provisioning part returns, the binding to \<open>VpcId\<close> is matched, and
  the run raises for \<open>SubnetId\<close> right after the read of the stack: it issues no put.
\<close>

theorem matched_binding_after_unmatched_gets_no_put:
  "fst (provisioning unmatched_first_task converged_answers) = Inr (Some ''pp-1'')
   \<and> execution unmatched_first_task = EXECUTION_MODE_HUB
   \<and> get_stack_output_for_ssm converged_answers ''SC-111111111111-pp-1''
       = Inr \<lparr>StackStatus = ''UPDATE_COMPLETE'',
              Outputs = Some [\<lparr>OutputKey = ''VpcId'', OutputValue = ''vpc-123''\<rparr>]\<rparr>
   \<and> matched [\<lparr>OutputKey = ''VpcId'', OutputValue = ''vpc-123''\<rparr>]
        \<lparr>stack_output = ''VpcId'',
         param_name = ''/networking/${AWS::Region}/${AWS::AccountId}/vpc-id'',
         param_type = None\<rparr>
   \<and> \<lparr>stack_output = ''VpcId'',
        param_name = ''/networking/${AWS::Region}/${AWS::AccountId}/vpc-id'',
        param_type = None\<rparr>
       \<in> set (ssm_param_outputs unmatched_first_task)
   \<and> provision_product_run unmatched_first_task converged_answers
       = (Inl (CouldNotFindMatch ''SubnetId''),
          [TerminateIfStatusIsNotAvailable ''L1'' ''prod-1'' ''111111111111'' ''us-east-1'',
           GetParametersForStack ''SC-111111111111-pp-1'',
           GetStackOutputFor ''SC-111111111111-pp-1''])
   \<and> filter is_put (snd (provision_product_run unmatched_first_task converged_answers)) = []"
  by (simp add: unmatched_first_task_def matched_def example_defs provision_defs run_defs)

subsection \<open>ProvisionProductDryRunTask.run\<close>






subsection \<open>DoTerminateProductTask.run\<close>

text \<open>An exception of the delete other than \<open>ParameterNotFound\<close> leaves the run.\<close>

lemma delete_ssm_params_other_error:
  assumes "delete_parameter a (param_name b) = Inl e" "e \<noteq> ParameterNotFound"
  shows "delete_ssm_params a (b # bs) = (Inl e, [DeleteParameter (param_name b)])"
  using assms by (cases e) (simp_all add: run_defs)

text \<open>
  When each delete succeeds or raises \<open>ParameterNotFound\<close>, the run returns normally. It
  calls \<open>aws.ensure_is_terminated\<close> once and issues no terminate of its own, and it deletes
  once for each declared binding, under the binding's \<open>param_name\<close> as it is declared.
\<close>

lemma terminate_run_swallows:
  assumes "ensure_is_terminated a = Inr (ppid, paid)"
    and "\<forall>b \<in> set (ssm_param_outputs t). delete_parameter a (param_name b) = Inr ()
             \<or> delete_parameter a (param_name b) = Inl ParameterNotFound"
  shows "fst (do_terminate_product_run t a) = Inr ()
     \<and> filter mutating (snd (do_terminate_product_run t a))
         = map (\<lambda>b. DeleteParameter (param_name b)) (ssm_param_outputs t)
     \<and> filter may_terminate (snd (do_terminate_product_run t a))
         = [EnsureIsTerminated (launch_name t) (details_product_id a)]"
proof -
  have d: "fst (delete_ssm_params a bs) = Inr ()
     \<and> filter mutating (snd (delete_ssm_params a bs)) = map (\<lambda>b. DeleteParameter (param_name b)) bs
     \<and> filter may_terminate (snd (delete_ssm_params a bs)) = []"
    if "\<forall>b \<in> set bs. delete_parameter a (param_name b) = Inr ()
             \<or> delete_parameter a (param_name b) = Inl ParameterNotFound" for bs
    using that by (induction bs) (auto simp: run_defs)
  obtain cs where c: "delete_ssm_params a (ssm_param_outputs t) = (Inr (), cs)"
    using d [OF assms(2)] by (cases "delete_ssm_params a (ssm_param_outputs t)") simp
  show ?thesis using assms(1) d [OF assms(2)]
    by (simp add: do_terminate_product_run_def c run_defs)
qed

text \<open>
  C9. The scenario, provisioned from the hub and then terminated. The provisioning wrote
  the parameter \<open>/networking/us-east-1/111111111111/vpc-id\<close>, the declared name with the
  region and the account id put in. The termination deletes the declared name as it
  stands, \<open>/networking/${AWS::Region}/${AWS::AccountId}/vpc-id\<close>: the store has no such
  parameter, the \<open>ParameterNotFound\<close> is logged and swallowed, and the parameter that was
  written is not deleted.
\<close>

theorem terminate_deletes_the_declared_name:
  "provision_product_run example_task converged_answers
     = (Inr (),
        [TerminateIfStatusIsNotAvailable ''L1'' ''prod-1'' ''111111111111'' ''us-east-1'',
         GetParametersForStack ''SC-111111111111-pp-1'',
         GetStackOutputFor ''SC-111111111111-pp-1'',
         PutParameterAndWait ''/networking/us-east-1/111111111111/vpc-id'' ''vpc-123''
           ''String'' True,
         WriteOutput (task_output_of example_task)])
   \<and> do_terminate_product_run example_task converged_answers
     = (Inr (),
        [EnsureIsTerminated ''L1'' ''prod-1'',
         DeleteParameter ''/networking/${AWS::Region}/${AWS::AccountId}/vpc-id'',
         InfoParamNotFound ''/networking/${AWS::Region}/${AWS::AccountId}/vpc-id'',
         WriteTerminated (Some ''pp-1'')])"
  by (simp add: do_terminate_product_run_def example_defs provision_defs run_defs)

subsection \<open>RunDeployInSpokeTask.run\<close>

text \<open>No call of \<open>RunDeployInSpokeTask.run\<close> waits for the build, whatever the answers.\<close>

lemma run_deploy_in_spoke_never_waits:
  "c \<in> set (snd (run_deploy_in_spoke_run t a)) \<Longrightarrow> \<not> waits c"
  by (cases "put_object a"; cases "generate_presigned_url a"; cases "get_parameter a";
      cases "start_build a")
     (auto simp: run_deploy_in_spoke_run_def Let_def run_defs)

text \<open>
  The calls when every client answers: the upload, the signed URL valid for 86400
  seconds, the version, the start of the build with the eight variables, and the write.
\<close>

lemma run_deploy_in_spoke_calls:
  assumes "put_object a = Inr ()" "generate_presigned_url a = Inr url"
    "get_parameter a = Inr v" "start_build a = Inr b"
  shows "run_deploy_in_spoke_run t a
     = (Inr (),
        [S3PutObject (new_manifest a) (''sc-puppet-spoke-deploy-'' @ deploy_puppet_account_id t)
           ((case CODEBUILD_BUILD_NUMBER a of None \<Rightarrow> ''0'' | Some n \<Rightarrow> n) @ ''.yaml''),
         GeneratePresignedUrl ''get_object'' (''sc-puppet-spoke-deploy-'' @ deploy_puppet_account_id t)
           ((case CODEBUILD_BUILD_NUMBER a of None \<Rightarrow> ''0'' | Some n \<Rightarrow> n) @ ''.yaml'') 86400,
         SsmGetParameter ''service-catalog-puppet-version'',
         StartBuild (EXECUTION_SPOKE_CODEBUILD_PROJECT_NAME a) (deploy_environment t a v url),
         WriteDeployOutput (deploy_account_id t) b])"
  using assms by (simp add: run_deploy_in_spoke_run_def Let_def run_defs)

text \<open>\<open>DoExecuteCodeBuildRunTask.run\<close> starts its build with the call that waits.\<close>

lemma do_execute_code_build_run_waits:
  assumes "batch_get_projects a = Inr ps"
  shows "\<exists>c \<in> set (snd (do_execute_code_build_run t a)). waits c"
  using assms
  by (cases "start_build_and_wait_for_completion a")
     (auto simp: do_execute_code_build_run_def run_defs)

text \<open>
  C4, as the code has it. No call of the run waits for a build, whatever the clients
  answer. When every client answers, the run uploads the manifest, has a retrieval URL
  signed for 86400 seconds, reads the version, starts the build in the spoke with
  \<open>codebuild.start_build\<close>, and writes as its output the account id and the build as
  \<open>start_build\<close> returned it, then returns. The variables given to the build are the
  eight named ones, each of type PLAINTEXT with a string value, \<open>MANIFEST_URL\<close> being the
  signed URL.
\<close>

theorem run_deploy_in_spoke_starts_and_records:
  "(\<forall>c \<in> set (snd (run_deploy_in_spoke_run t a)). \<not> waits c)
   \<and> (\<forall>url v b.
         put_object a = Inr () \<longrightarrow> generate_presigned_url a = Inr url
         \<longrightarrow> get_parameter a = Inr v \<longrightarrow> start_build a = Inr b
         \<longrightarrow> run_deploy_in_spoke_run t a
              = (Inr (),
                 [S3PutObject (new_manifest a)
                    (''sc-puppet-spoke-deploy-'' @ deploy_puppet_account_id t)
                    ((case CODEBUILD_BUILD_NUMBER a of None \<Rightarrow> ''0'' | Some n \<Rightarrow> n) @ ''.yaml''),
                  GeneratePresignedUrl ''get_object''
                    (''sc-puppet-spoke-deploy-'' @ deploy_puppet_account_id t)
                    ((case CODEBUILD_BUILD_NUMBER a of None \<Rightarrow> ''0'' | Some n \<Rightarrow> n) @ ''.yaml'')
                    86400,
                  SsmGetParameter ''service-catalog-puppet-version'',
                  StartBuild (EXECUTION_SPOKE_CODEBUILD_PROJECT_NAME a)
                    (deploy_environment t a v url),
                  WriteDeployOutput (deploy_account_id t) b]))
   \<and> (\<forall>v url.
         list_all (\<lambda>e. ev_type e = ''PLAINTEXT'') (deploy_environment t a v url)
         \<and> map ev_name (deploy_environment t a v url)
             = [''VERSION'', ''MANIFEST_URL'', ''PUPPET_ACCOUNT_ID'', ''HOME_REGION'', ''REGIONS'',
                ''SHOULD_COLLECT_CLOUDFORMATION_EVENTS'', ''SHOULD_FORWARD_EVENTS_TO_EVENTBRIDGE'',
                ''SHOULD_FORWARD_FAILURES_TO_OPSCENTER'']
         \<and> map_of (map (\<lambda>e. (ev_name e, ev_value e)) (deploy_environment t a v url))
               ''MANIFEST_URL''
             = Some url)"
proof (intro conjI allI impI ballI)
  fix c
  assume "c \<in> set (snd (run_deploy_in_spoke_run t a))"
  then show "\<not> waits c" by (rule run_deploy_in_spoke_never_waits)
next
  fix url v b
  assume "put_object a = Inr ()" "generate_presigned_url a = Inr url"
    "get_parameter a = Inr v" "start_build a = Inr b"
  then show "run_deploy_in_spoke_run t a
              = (Inr (),
                 [S3PutObject (new_manifest a)
                    (''sc-puppet-spoke-deploy-'' @ deploy_puppet_account_id t)
                    ((case CODEBUILD_BUILD_NUMBER a of None \<Rightarrow> ''0'' | Some n \<Rightarrow> n) @ ''.yaml''),
                  GeneratePresignedUrl ''get_object''
                    (''sc-puppet-spoke-deploy-'' @ deploy_puppet_account_id t)
                    ((case CODEBUILD_BUILD_NUMBER a of None \<Rightarrow> ''0'' | Some n \<Rightarrow> n) @ ''.yaml'')
                    86400,
                  SsmGetParameter ''service-catalog-puppet-version'',
                  StartBuild (EXECUTION_SPOKE_CODEBUILD_PROJECT_NAME a)
                    (deploy_environment t a v url),
                  WriteDeployOutput (deploy_account_id t) b])"
    by (rule run_deploy_in_spoke_calls)
next
  fix v url
  show "list_all (\<lambda>e. ev_type e = ''PLAINTEXT'') (deploy_environment t a v url)"
    by (simp add: deploy_environment_def plaintext_def)
  show "map ev_name (deploy_environment t a v url)
             = [''VERSION'', ''MANIFEST_URL'', ''PUPPET_ACCOUNT_ID'', ''HOME_REGION'', ''REGIONS'',
                ''SHOULD_COLLECT_CLOUDFORMATION_EVENTS'', ''SHOULD_FORWARD_EVENTS_TO_EVENTBRIDGE'',
                ''SHOULD_FORWARD_FAILURES_TO_OPSCENTER'']"
    by (simp add: deploy_environment_def plaintext_def)
  show "map_of (map (\<lambda>e. (ev_name e, ev_value e)) (deploy_environment t a v url))
               ''MANIFEST_URL''
             = Some url"
    by (simp add: deploy_environment_def plaintext_def)
qed

theorem run_deploy_in_spoke_starts_and_records_witness:
  "put_object example_deploy_answers = Inr ()
   \<and> generate_presigned_url example_deploy_answers = Inr ''https://s3/signed''
   \<and> get_parameter example_deploy_answers = Inr ''0.90.0''
   \<and> start_build example_deploy_answers
       = Inr \<lparr>build_id = ''build-1'', buildStatus = ''IN_PROGRESS''\<rparr>
   \<and> run_deploy_in_spoke_run example_deploy_task example_deploy_answers
       = (Inr (),
          [S3PutObject ''launches: {}'' ''sc-puppet-spoke-deploy-000000000000'' ''42.yaml'',
           GeneratePresignedUrl ''get_object'' ''sc-puppet-spoke-deploy-000000000000'' ''42.yaml''
             86400,
           SsmGetParameter ''service-catalog-puppet-version'',
           StartBuild ''servicecatalog-puppet-deploy-in-spoke''
             (deploy_environment example_deploy_task example_deploy_answers ''0.90.0''
                ''https://s3/signed''),
           WriteDeployOutput ''111111111111''
             \<lparr>build_id = ''build-1'', buildStatus = ''IN_PROGRESS''\<rparr>])
   \<and> filter waits (snd (run_deploy_in_spoke_run example_deploy_task example_deploy_answers)) = []"
proof -
  note th = run_deploy_in_spoke_starts_and_records [of example_deploy_task example_deploy_answers]
  have p: "put_object example_deploy_answers = Inr ()"
    and g: "generate_presigned_url example_deploy_answers = Inr ''https://s3/signed''"
    and v: "get_parameter example_deploy_answers = Inr ''0.90.0''"
    and s: "start_build example_deploy_answers
       = Inr \<lparr>build_id = ''build-1'', buildStatus = ''IN_PROGRESS''\<rparr>"
    by (simp_all add: example_deploy_answers_def)
  from th p g v s
  have "run_deploy_in_spoke_run example_deploy_task example_deploy_answers
       = (Inr (),
          [S3PutObject (new_manifest example_deploy_answers)
             (''sc-puppet-spoke-deploy-'' @ deploy_puppet_account_id example_deploy_task)
             ((case CODEBUILD_BUILD_NUMBER example_deploy_answers of
                 None \<Rightarrow> ''0'' | Some n \<Rightarrow> n) @ ''.yaml''),
           GeneratePresignedUrl ''get_object''
             (''sc-puppet-spoke-deploy-'' @ deploy_puppet_account_id example_deploy_task)
             ((case CODEBUILD_BUILD_NUMBER example_deploy_answers of
                 None \<Rightarrow> ''0'' | Some n \<Rightarrow> n) @ ''.yaml'')
             86400,
           SsmGetParameter ''service-catalog-puppet-version'',
           StartBuild (EXECUTION_SPOKE_CODEBUILD_PROJECT_NAME example_deploy_answers)
             (deploy_environment example_deploy_task example_deploy_answers ''0.90.0''
                ''https://s3/signed''),
           WriteDeployOutput (deploy_account_id example_deploy_task)
             \<lparr>build_id = ''build-1'', buildStatus = ''IN_PROGRESS''\<rparr>])"
    by blast
  then have r: "run_deploy_in_spoke_run example_deploy_task example_deploy_answers
       = (Inr (),
          [S3PutObject ''launches: {}'' ''sc-puppet-spoke-deploy-000000000000'' ''42.yaml'',
           GeneratePresignedUrl ''get_object'' ''sc-puppet-spoke-deploy-000000000000'' ''42.yaml''
             86400,
           SsmGetParameter ''service-catalog-puppet-version'',
           StartBuild ''servicecatalog-puppet-deploy-in-spoke''
             (deploy_environment example_deploy_task example_deploy_answers ''0.90.0''
                ''https://s3/signed''),
           WriteDeployOutput ''111111111111''
             \<lparr>build_id = ''build-1'', buildStatus = ''IN_PROGRESS''\<rparr>])"
    by (simp add: example_deploy_answers_def example_deploy_task_def)
  from th have "\<forall>c \<in> set (snd (run_deploy_in_spoke_run example_deploy_task example_deploy_answers)).
      \<not> waits c"
    by blast
  then have w: "filter waits (snd (run_deploy_in_spoke_run example_deploy_task example_deploy_answers))
      = []"
    by (simp add: filter_empty_conv)
  show ?thesis using p g v s r w by simp
qed

text \<open>
  C4 as stated fails: the run does not block until the build completes. At a
  \<open>start_build\<close> that answers with the build IN_PROGRESS, the call after the start of the
  build is the write of the output, with the build still IN_PROGRESS, and no call of the
  run waits.
\<close>

theorem run_deploy_in_spoke_does_not_wait:
  "filter waits (snd (run_deploy_in_spoke_run example_deploy_task example_deploy_answers)) = []
   \<and> run_deploy_in_spoke_run example_deploy_task example_deploy_answers
     = (Inr (),
        [S3PutObject ''launches: {}'' ''sc-puppet-spoke-deploy-000000000000'' ''42.yaml'',
         GeneratePresignedUrl ''get_object'' ''sc-puppet-spoke-deploy-000000000000'' ''42.yaml'' 86400,
         SsmGetParameter ''service-catalog-puppet-version'',
         StartBuild ''servicecatalog-puppet-deploy-in-spoke''
           [\<lparr>ev_name = ''VERSION'', ev_value = ''0.90.0'', ev_type = ''PLAINTEXT''\<rparr>,
            \<lparr>ev_name = ''MANIFEST_URL'', ev_value = ''https://s3/signed'', ev_type = ''PLAINTEXT''\<rparr>,
            \<lparr>ev_name = ''PUPPET_ACCOUNT_ID'', ev_value = ''000000000000'', ev_type = ''PLAINTEXT''\<rparr>,
            \<lparr>ev_name = ''HOME_REGION'', ev_value = ''eu-west-1'', ev_type = ''PLAINTEXT''\<rparr>,
            \<lparr>ev_name = ''REGIONS'', ev_value = ''eu-west-1,us-east-1'', ev_type = ''PLAINTEXT''\<rparr>,
            \<lparr>ev_name = ''SHOULD_COLLECT_CLOUDFORMATION_EVENTS'', ev_value = ''True'',
              ev_type = ''PLAINTEXT''\<rparr>,
            \<lparr>ev_name = ''SHOULD_FORWARD_EVENTS_TO_EVENTBRIDGE'', ev_value = ''False'',
              ev_type = ''PLAINTEXT''\<rparr>,
            \<lparr>ev_name = ''SHOULD_FORWARD_FAILURES_TO_OPSCENTER'', ev_value = ''False'',
              ev_type = ''PLAINTEXT''\<rparr>],
         WriteDeployOutput ''111111111111'' \<lparr>build_id = ''build-1'', buildStatus = ''IN_PROGRESS''\<rparr>])"
  by (simp add: run_deploy_in_spoke_run_def Let_def run_defs example_deploy_task_def
      example_deploy_answers_def deploy_environment_def plaintext_def str_of_bool_def)

subsection \<open>Graph construction: affinities\<close>

lemmas constant_defs =
  LAUNCH_def LAUNCHES_def SPOKE_LOCAL_PORTFOLIO_def ASSERTION_def CODE_BUILD_RUN_def
  LAMBDA_INVOCATION_def EXECUTION_MODE_SPOKE_def EXECUTION_MODE_HUB_def PROVISIONED_def
  TERMINATED_def

lemma spoke_dependencies_mismatch_first:
  assumes "dep_type d \<in> set supported_types" "dep_affinity d \<noteq> dep_type d"
  shows "\<exists>msg. spoke_dependencies m acc (d # ds) = Inl (ConfigurationError msg)"
  using assms by (auto simp: supported_types_def constant_defs)

lemma spoke_dependencies_mismatch:
  assumes "d \<in> set ds" "dep_type d \<in> set supported_types" "dep_affinity d \<noteq> dep_type d"
  shows "\<exists>e. spoke_dependencies m acc ds = Inl e \<and> is_configuration_error e"
  using assms
proof (induction ds arbitrary: acc)
  case Nil
  then show ?case by simp
next
  case (Cons x ds)
  show ?case
  proof (cases "x = d")
    case True
    with Cons.prems spoke_dependencies_mismatch_first [of d m acc ds]
    show ?thesis by (auto simp: is_configuration_error_def)
  next
    case False
    with Cons.prems have "d \<in> set ds" by simp
    then have ih: "\<exists>e. spoke_dependencies m acc' ds = Inl e \<and> is_configuration_error e" for acc'
      using Cons.prems by (intro Cons.IH) auto
    show ?thesis
      using ih by (auto simp: is_configuration_error_def split: option.splits)
  qed
qed

lemma spoke_dependencies_other_type:
  "dep_type d \<notin> set supported_types \<Longrightarrow>
   spoke_dependencies m acc (d # ds) = spoke_dependencies m acc ds"
  by (simp add: supported_types_def)

lemma launch_for_region_requires_no_affinity_error:
  "launch_for_region_requires dry m region_tasks name r \<noteq> Inl (ConfigurationError msg)"
  by (auto simp: launch_for_region_requires_def get_klass_for_provisioning_def
      split: option.splits sum.splits if_splits)


text \<open>
  C5, as the code has it. In \<open>LaunchForSpokeExecutionTask.requires\<close>, a \<open>depends_on\<close> edge
  whose type is one of launch, spoke-local-portfolio, assertion, code-build-run and
  lambda-invocation and whose affinity is not its type ends the construction with a
  configuration error; an edge of type launch and affinity region at the head of the
  list ends it with the raise for launches; an edge of any other type is passed over.
  \<open>LaunchForRegionTask.requires\<close> raises for no affinity.
\<close>

theorem spoke_requires_rejects_affinity_mismatch:
  "(\<forall>d. m name = Some l \<longrightarrow> l_depends_on l = Some ds \<longrightarrow> d \<in> set ds
        \<longrightarrow> dep_type d \<in> set supported_types \<longrightarrow> dep_affinity d \<noteq> dep_type d
        \<longrightarrow> (\<exists>e. launch_for_spoke_execution_requires m name = Inl e \<and> is_configuration_error e))
   \<and> (\<forall>d ds'. m name = Some l \<longrightarrow> l_depends_on l = Some (d # ds')
        \<longrightarrow> dep_type d = ''launch'' \<longrightarrow> dep_affinity d = ''region''
        \<longrightarrow> launch_for_spoke_execution_requires m name
              = Inl (ConfigurationError
                  ''Could can only depend on a launch using affinity launch when using spoke execution mode''))
   \<and> (\<forall>d ds'. m name = Some l \<longrightarrow> l_depends_on l = Some (d # ds')
        \<longrightarrow> dep_type d \<notin> set supported_types
        \<longrightarrow> launch_for_spoke_execution_requires m name = spoke_dependencies m [] ds')
   \<and> (\<forall>msg. launch_for_region_requires dry m region_tasks name r \<noteq> Inl (ConfigurationError msg))"
proof (intro conjI allI impI)
  fix d
  assume "m name = Some l" "l_depends_on l = Some ds" "d \<in> set ds"
    "dep_type d \<in> set supported_types" "dep_affinity d \<noteq> dep_type d"
  then show "\<exists>e. launch_for_spoke_execution_requires m name = Inl e \<and> is_configuration_error e"
    using spoke_dependencies_mismatch [of d ds m "[]"]
    by (simp add: launch_for_spoke_execution_requires_def)
next
  fix d ds'
  assume "m name = Some l" "l_depends_on l = Some (d # ds')"
    "dep_type d = ''launch''" "dep_affinity d = ''region''"
  then show "launch_for_spoke_execution_requires m name
      = Inl (ConfigurationError
          ''Could can only depend on a launch using affinity launch when using spoke execution mode'')"
    by (simp add: launch_for_spoke_execution_requires_def LAUNCH_def)
next
  fix d ds'
  assume "m name = Some l" "l_depends_on l = Some (d # ds')" "dep_type d \<notin> set supported_types"
  then show "launch_for_spoke_execution_requires m name = spoke_dependencies m [] ds'"
    by (simp add: launch_for_spoke_execution_requires_def spoke_dependencies_other_type
        del: spoke_dependencies.simps)
next
  fix msg
  show "launch_for_region_requires dry m region_tasks name r \<noteq> Inl (ConfigurationError msg)"
    by (rule launch_for_region_requires_no_affinity_error)
qed

theorem spoke_requires_rejects_affinity_mismatch_witness:
  "launch_for_spoke_execution_requires
     (example_manifest
        [\<lparr>dep_type = ''launch'', dep_affinity = ''launch'', dep_name = ''L0''\<rparr>,
         \<lparr>dep_type = ''assertion'', dep_affinity = ''account'', dep_name = ''A1''\<rparr>]) ''L1''
     = Inl (ConfigurationError
         ''Could can only depend on an assertion using affinity assertion when using spoke execution mode'')
   \<and> launch_for_spoke_execution_requires
       (example_manifest [\<lparr>dep_type = ''launch'', dep_affinity = ''region'', dep_name = ''L0''\<rparr>])
       ''L1''
     = Inl (ConfigurationError
         ''Could can only depend on a launch using affinity launch when using spoke execution mode'')
   \<and> launch_for_spoke_execution_requires
       (example_manifest
          [\<lparr>dep_type = ''stack'', dep_affinity = ''region'', dep_name = ''S1''\<rparr>,
           \<lparr>dep_type = ''launch'', dep_affinity = ''launch'', dep_name = ''L0''\<rparr>])
       ''L1''
     = Inr [LaunchTask ''L0'']"
proof -
  let ?la = "\<lparr>dep_type = ''launch'', dep_affinity = ''launch'', dep_name = ''L0''\<rparr>"
  let ?ab = "\<lparr>dep_type = ''assertion'', dep_affinity = ''account'', dep_name = ''A1''\<rparr>"
  let ?lr = "\<lparr>dep_type = ''launch'', dep_affinity = ''region'', dep_name = ''L0''\<rparr>"
  let ?st = "\<lparr>dep_type = ''stack'', dep_affinity = ''region'', dep_name = ''S1''\<rparr>"
  let ?mk = "\<lambda>ds. \<lparr>l_execution = Some ''spoke'', l_depends_on = Some ds,
                   l_status = Some ''provisioned''\<rparr>"
  have m: "example_manifest ds ''L1'' = Some (?mk ds)" for ds
    by (simp add: example_manifest_def)
  have d: "l_depends_on (?mk ds) = Some ds" for ds by simp
  have "\<exists>e. launch_for_spoke_execution_requires (example_manifest [?la, ?ab]) ''L1'' = Inl e
          \<and> is_configuration_error e"
  proof -
    have "?ab \<in> set [?la, ?ab]" "dep_type ?ab \<in> set supported_types"
      "dep_affinity ?ab \<noteq> dep_type ?ab"
      by (simp_all add: supported_types_def constant_defs)
    with spoke_requires_rejects_affinity_mismatch
           [of "example_manifest [?la, ?ab]" "''L1''" "?mk [?la, ?ab]" "[?la, ?ab]"] m d
    show ?thesis by blast
  qed
  moreover have "launch_for_spoke_execution_requires (example_manifest [?la, ?ab]) ''L1''
     = Inl (ConfigurationError
         ''Could can only depend on an assertion using affinity assertion when using spoke execution mode'')"
    by (simp add: launch_for_spoke_execution_requires_def example_manifest_def constant_defs)
  moreover have "launch_for_spoke_execution_requires (example_manifest [?lr]) ''L1''
     = Inl (ConfigurationError
         ''Could can only depend on a launch using affinity launch when using spoke execution mode'')"
  proof -
    have "dep_type ?lr = ''launch''" "dep_affinity ?lr = ''region''" by simp_all
    with spoke_requires_rejects_affinity_mismatch
           [of "example_manifest [?lr]" "''L1''" "?mk [?lr]"] m d
    show ?thesis by blast
  qed
  moreover have "launch_for_spoke_execution_requires (example_manifest [?st, ?la]) ''L1''
     = Inr [LaunchTask ''L0'']"
  proof -
    have "dep_type ?st \<notin> set supported_types"
      by (simp add: supported_types_def constant_defs)
    with spoke_requires_rejects_affinity_mismatch
           [of "example_manifest [?st, ?la]" "''L1''" "?mk [?st, ?la]"] m d
    have "launch_for_spoke_execution_requires (example_manifest [?st, ?la]) ''L1''
        = spoke_dependencies (example_manifest [?st, ?la]) [] [?la]"
      by blast
    then show ?thesis by (simp add: example_manifest_def constant_defs)
  qed
  ultimately show ?thesis by simp
qed

text \<open>
  C5 as stated fails. \<open>LaunchForRegionTask.requires\<close> returns at an edge of type launch
  and affinity region, and at an edge of the section's type and affinity region it adds
  the depended-on launch for the same region. \<open>LaunchForSpokeExecutionTask.requires\<close>
  returns at an edge of a type it does not know, whatever its affinity.
\<close>

theorem affinity_mismatch_not_always_rejected:
  "launch_for_region_requires False
     (example_manifest [\<lparr>dep_type = ''launch'', dep_affinity = ''region'', dep_name = ''L0''\<rparr>])
     ([] :: unit list) ''L1'' ''us-east-1''
     = Inr ([], [])
   \<and> launch_for_region_requires False
       (example_manifest [\<lparr>dep_type = ''launches'', dep_affinity = ''region'', dep_name = ''L0''\<rparr>])
       ([] :: unit list) ''L1'' ''us-east-1''
     = Inr ([], [LaunchForRegionTask ''L0'' ''us-east-1''])
   \<and> launch_for_spoke_execution_requires
       (example_manifest [\<lparr>dep_type = ''stack'', dep_affinity = ''region'', dep_name = ''S1''\<rparr>])
       ''L1''
     = Inr []"
  by (simp add: launch_for_region_requires_def launch_for_spoke_execution_requires_def
      get_klass_for_provisioning_def example_manifest_def constant_defs)

end
